theory Spec2Isabelle
  imports Main
begin

section \<open>Values, documents and errors\<close>

text \<open>
  A stored user is a JavaScript object: a finite map from field names to values.
  The fields of the schema in \<^verbatim>\<open>models/user.ts\<close> are strings; Mongoose adds the
  identifier \<^verbatim>\<open>_id\<close>, the version key \<^verbatim>\<open>__v\<close> and the two timestamps.
  Request bodies are JSON objects whose values are strings (the schema casts every
  declared path to \<^verbatim>\<open>String\<close>); a missing key is \<^verbatim>\<open>undefined\<close>. The one
  nested value modelled is the object under the key \<^verbatim>\<open>$set\<close>, which an update reads
  as an operator (see the request record).
  Strings are ASCII: \<open>length\<close> is then JavaScript's \<^verbatim>\<open>.length\<close>.
\<close>

datatype val = Str string | Num nat | Date nat | Arr "string list"

type_synonym doc = "string \<rightharpoonup> val"

type_synonym body = "string \<rightharpoonup> string"

definition str_of :: "doc \<Rightarrow> string \<Rightarrow> string option" where
  "str_of d p = (case d p of Some (Str s) \<Rightarrow> Some s | _ \<Rightarrow> None)"

text \<open>
  A thrown JavaScript error, as the boundary wrapper reads it: its \<^verbatim>\<open>name\<close>, its
  optional \<^verbatim>\<open>statusCode\<close> and its \<^verbatim>\<open>message\<close>; a Mongoose validation error
  also carries the per-field messages in \<^verbatim>\<open>errors\<close>.
\<close>

record js_error =
  err_name :: string
  err_statusCode :: "nat option"
  err_message :: string
  err_errors :: "(string \<times> string) list"

text \<open>
  \<^verbatim>\<open>createHttpError(status, message)\<close> of the http-errors package: the error's name
  is derived from the status. Only the statuses this repository passes are listed.
\<close>

definition http_error_name :: "nat \<Rightarrow> string" where
  "http_error_name status =
     (if status = 400 then ''BadRequestError''
      else if status = 401 then ''UnauthorizedError''
      else if status = 404 then ''NotFoundError''
      else if status = 405 then ''MethodNotAllowedError''
      else if status = 503 then ''ServiceUnavailableError''
      else ''HttpError'')"

definition createHttpError :: "nat \<Rightarrow> string \<Rightarrow> js_error" where
  "createHttpError status msg =
     \<lparr>err_name = http_error_name status, err_statusCode = Some status,
      err_message = msg, err_errors = []\<rparr>"

text \<open>
  A session token as \<^verbatim>\<open>jwt.sign(payload, secret, { expiresIn })\<close> builds it: the
  payload, the key that signed it, and the issue and expiry times in seconds.
\<close>

record token =
  tok_payload :: doc
  tok_key :: string
  tok_iat :: nat
  tok_exp :: nat

definition jwt_sign :: "doc \<Rightarrow> string \<Rightarrow> nat \<Rightarrow> nat \<Rightarrow> token" where
  "jwt_sign payload key days now =
     \<lparr>tok_payload = payload, tok_key = key,
      tok_iat = now div 1000, tok_exp = now div 1000 + days * 86400\<rparr>"

section \<open>Responses and the boundary wrapper\<close>

record cookie_options =
  httpOnly :: "bool option"
  sameSite :: "string option"
  expires :: "nat option"

record cookie =
  cookie_name :: string
  cookie_value :: "token option"
  cookie_opts :: cookie_options

text \<open>
  What a handler leaves on the response object: the status, the \<^verbatim>\<open>message\<close> and
  \<^verbatim>\<open>data.user\<close> members of the JSON body, and the cookies set on it.
\<close>

record response =
  res_status :: nat
  res_message :: string
  res_user :: "doc option"
  res_cookies :: "cookie list"

text \<open>
  \<^verbatim>\<open>lib/catchAsync.ts\<close>. The handler's promise either resolves with the response it
  wrote (\<open>Inr\<close>) or rejects with an error (\<open>Inl\<close>). The two remappings run one after
  the other on the same variable; \<^verbatim>\<open>x || y\<close> takes \<open>y\<close> when \<open>x\<close> is undefined, \<open>0\<close>
  or the empty string. The logging in development mode writes to the console only.
\<close>

definition or_status :: "nat option \<Rightarrow> nat \<Rightarrow> nat" where
  "or_status x y = (case x of None \<Rightarrow> y | Some n \<Rightarrow> if n = 0 then y else n)"

definition or_string :: "string \<Rightarrow> string \<Rightarrow> string" where
  "or_string x y = (if x = [] then y else x)"

definition catchAsync :: "js_error + response \<Rightarrow> response" where
  "catchAsync outcome =
     (case outcome of
        Inr res \<Rightarrow> res
      | Inl error \<Rightarrow>
          let error1 = (if err_name error = ''JsonWebTokenError''
                        then createHttpError 401 ''Invalid token!'' else error);
              error2 = (if err_name error1 = ''TokenExpiredError''
                        then createHttpError 401 ''Token has been expired!'' else error1);
              statusCode = or_status (err_statusCode error2) 500;
              message = or_string (err_message error2) ''Something went wrong!''
          in \<lparr>res_status = statusCode, res_message = message,
              res_user = None, res_cookies = []\<rparr>)"

section \<open>String helpers of the schema\<close>

text \<open>
  \<^verbatim>\<open>String.prototype.trim\<close> (the \<^verbatim>\<open>trim: true\<close> setter) and \<^verbatim>\<open>split(' ')\<close>.
\<close>

definition is_space :: "char \<Rightarrow> bool" where
  "is_space c = (c \<in> set [CHR '' '', CHR 0x09, CHR 0x0A, CHR 0x0B, CHR 0x0C, CHR 0x0D])"

definition trim :: "string \<Rightarrow> string" where
  "trim s = rev (dropWhile is_space (rev (dropWhile is_space s)))"

fun split_space :: "string \<Rightarrow> string list" where
  "split_space [] = [[]]"
| "split_space (c # cs) =
     (if c = CHR '' '' then [] # split_space cs
      else (case split_space cs of
              w # ws \<Rightarrow> (c # w) # ws
            | [] \<Rightarrow> [[c]]))"

definition nth_opt :: "'a list \<Rightarrow> nat \<Rightarrow> 'a option" where
  "nth_opt xs i = (if i < length xs then Some (xs ! i) else None)"

text \<open>JavaScript truthiness of a possibly undefined string.\<close>

definition truthy :: "string option \<Rightarrow> bool" where
  "truthy x = (case x of None \<Rightarrow> False | Some s \<Rightarrow> s \<noteq> [])"

text \<open>
  Regular expressions, matched by derivatives; an anchored \<^verbatim>\<open>/^...$/.test(s)\<close> is
  membership of the whole string.
\<close>

datatype rx = Fail | Eps | Cls "char list" | Seq rx rx | Alt rx rx | Star rx

fun nullable :: "rx \<Rightarrow> bool" where
  "nullable Fail = False"
| "nullable Eps = True"
| "nullable (Cls cs) = False"
| "nullable (Seq r s) = (nullable r \<and> nullable s)"
| "nullable (Alt r s) = (nullable r \<or> nullable s)"
| "nullable (Star r) = True"

fun deriv :: "char \<Rightarrow> rx \<Rightarrow> rx" where
  "deriv c Fail = Fail"
| "deriv c Eps = Fail"
| "deriv c (Cls cs) = (if c \<in> set cs then Eps else Fail)"
| "deriv c (Seq r s) =
     (if nullable r then Alt (Seq (deriv c r) s) (deriv c s) else Seq (deriv c r) s)"
| "deriv c (Alt r s) = Alt (deriv c r) (deriv c s)"
| "deriv c (Star r) = Seq (deriv c r) (Star r)"

fun rx_test :: "rx \<Rightarrow> string \<Rightarrow> bool" where
  "rx_test r [] = nullable r"
| "rx_test r (c # cs) = rx_test (deriv c r) cs"

definition rx_plus :: "rx \<Rightarrow> rx" where
  "rx_plus r = Seq r (Star r)"

definition rx_opt :: "rx \<Rightarrow> rx" where
  "rx_opt r = Alt r Eps"

definition word_chars :: "char list" where
  "word_chars = ''abcdefghijklmnopqrstuvwxyzABCDEFGHIJKLMNOPQRSTUVWXYZ0123456789_''"

text \<open>\<^verbatim>\<open>/^\w+([\.-]?\w+)*@\w+([\.-]?\w+)*(\.\w{2,3})+$/\<close>\<close>

definition email_rx :: rx where
  "email_rx =
     (let w = Cls word_chars;
          part = Seq (rx_plus w) (Star (Seq (rx_opt (Cls ''.-'')) (rx_plus w)))
      in Seq part (Seq (Cls ''@'') (Seq part
           (rx_plus (Seq (Cls ''.'') (Seq w (Seq w (rx_opt w))))))))"

section \<open>The user schema\<close>

text \<open>
  The declared paths of \<^verbatim>\<open>userSchema\<close>, in the order of the source. Four of them
  carry the \<^verbatim>\<open>trim\<close> setter (\<^verbatim>\<open>trimmedString\<close>), which Mongoose applies whenever
  a value is assigned to the path, in a document or in an update or a query.
\<close>

definition schema_paths :: "string list" where
  "schema_paths = [''name'', ''email'', ''password'', ''confirmPassword'', ''role'', ''avatar'']"

definition trimmed_paths :: "string list" where
  "trimmed_paths = [''name'', ''email'', ''password'', ''confirmPassword'']"

definition cast_path :: "string \<Rightarrow> string \<Rightarrow> string" where
  "cast_path p v = (if p \<in> set trimmed_paths then trim v else v)"

definition UserRole_values :: "string list" where
  "UserRole_values = [''user'', ''admin'']"

text \<open>
  The validators of each path, in Mongoose's order: \<^verbatim>\<open>required\<close> first (it rejects
  undefined and the empty string), then the declared one; the first failure of a path is
  its error. Custom, \<^verbatim>\<open>match\<close>, \<^verbatim>\<open>minlength\<close> and \<^verbatim>\<open>enum\<close> validators do not
  run on undefined. Each function returns the path's error message, if any.
\<close>

definition name_validator :: "string \<Rightarrow> bool" where
  "name_validator v =
     (let valArray = split_space v
      in truthy (nth_opt valArray 0) \<and> truthy (nth_opt valArray 1))"

definition validate_name :: "doc \<Rightarrow> (string \<times> string) list" where
  "validate_name d =
     (case str_of d ''name'' of
        None \<Rightarrow> [(''name'', ''Name field must be required!'')]
      | Some v \<Rightarrow>
          if v = [] then [(''name'', ''Name field must be required!'')]
          else if name_validator v then []
          else [(''name'', ''Name contains at least 2 words!'')])"

definition validate_email :: "doc \<Rightarrow> (string \<times> string) list" where
  "validate_email d =
     (case str_of d ''email'' of
        None \<Rightarrow> [(''email'', ''Email field must be required!'')]
      | Some v \<Rightarrow>
          if v = [] then [(''email'', ''Email field must be required!'')]
          else if rx_test email_rx v then []
          else [(''email'', ''Invalid email!'')])"

definition minlength_message :: "string \<Rightarrow> string" where
  "minlength_message v =
     ''Path `password` (`'' @ v @ ''`) is shorter than the minimum allowed length (6).''"

definition validate_password :: "doc \<Rightarrow> (string \<times> string) list" where
  "validate_password d =
     (case str_of d ''password'' of
        None \<Rightarrow> [(''password'', ''Password field must be required!'')]
      | Some v \<Rightarrow>
          if v = [] then [(''password'', ''Password field must be required!'')]
          else if 6 \<le> length v then []
          else [(''password'', minlength_message v)])"

definition validate_confirmPassword :: "doc \<Rightarrow> (string \<times> string) list" where
  "validate_confirmPassword d =
     (case str_of d ''confirmPassword'' of
        None \<Rightarrow> [(''confirmPassword'', ''Confirm password field must be required!'')]
      | Some v \<Rightarrow>
          if v = [] then [(''confirmPassword'', ''Confirm password field must be required!'')]
          else if d ''password'' = Some (Str v) then []
          else [(''confirmPassword'', ''Password and confirm password does not match!'')])"

definition validate_role :: "doc \<Rightarrow> (string \<times> string) list" where
  "validate_role d =
     (case str_of d ''role'' of
        None \<Rightarrow> []
      | Some v \<Rightarrow>
          if v \<in> set UserRole_values then []
          else [(''role'', ''Role is either: user, admin'')])"

definition validate :: "doc \<Rightarrow> (string \<times> string) list" where
  "validate d =
     validate_name d @ validate_email d @ validate_password d @
     validate_confirmPassword d @ validate_role d"

fun join_comma :: "string list \<Rightarrow> string" where
  "join_comma [] = []"
| "join_comma [x] = x"
| "join_comma (x # y # ys) = x @ '', '' @ join_comma (y # ys)"

text \<open>Mongoose's \<^verbatim>\<open>ValidationError\<close>: no status code, one message per failing path.\<close>

definition ValidationError :: "(string \<times> string) list \<Rightarrow> js_error" where
  "ValidationError errs =
     \<lparr>err_name = ''ValidationError'', err_statusCode = None,
      err_message = ''User validation failed: '' @
        join_comma (map (\<lambda>(p, m). p @ '': '' @ m) errs),
      err_errors = errs\<rparr>"

text \<open>
  \<^verbatim>\<open>unique: true\<close> is not a validator: it declares a unique index, and the database
  rejects a write that would duplicate the key with error E11000.
\<close>

definition duplicate_key_error :: "string \<Rightarrow> js_error" where
  "duplicate_key_error p =
     \<lparr>err_name = ''MongoServerError'', err_statusCode = None,
      err_message = ''E11000 duplicate key error collection: users index: '' @ p @ ''_1'',
      err_errors = []\<rparr>"

section \<open>Environment, library functions and per-call inputs\<close>

text \<open>
  What the code reads from outside itself. \<^verbatim>\<open>SECRET_KEY\<close> is the variable of
  \<^verbatim>\<open>process.env\<close>. \<^verbatim>\<open>DAY_EXPIRE\<close> and \<^verbatim>\<open>EXPIRE_TIME\<close> are constants of
  \<^verbatim>\<open>lib\<close> whose declarations are not part of the sources at hand; they are
  parameters. \<^verbatim>\<open>bcrypt.hash\<close> and \<^verbatim>\<open>bcrypt.compare\<close> are the library's functions,
  left arbitrary: no property of the hash is assumed anywhere.
\<close>

record salt =
  salt_rounds :: nat
  salt_entropy :: string

record deps =
  SECRET_KEY :: "string option"
  DAY_EXPIRE :: nat
  EXPIRE_TIME :: nat
  bcrypt_hash :: "string \<Rightarrow> salt \<Rightarrow> string"
  bcrypt_compare :: "string \<Rightarrow> string \<Rightarrow> bool"

text \<open>
  The inputs a call draws from the outside world: the clock (milliseconds since the
  epoch), the fresh \<^verbatim>\<open>ObjectId\<close> for a new document and the random bytes of a salt.
\<close>

record call =
  call_now :: nat
  call_oid :: string
  call_entropy :: string

text \<open>\<^verbatim>\<open>bcrypt.genSalt(rounds)\<close>: the cost factor and fresh random bytes.\<close>

definition genSalt :: "nat \<Rightarrow> string \<Rightarrow> salt" where
  "genSalt rounds entropy = \<lparr>salt_rounds = rounds, salt_entropy = entropy\<rparr>"

section \<open>Mongoose documents\<close>

text \<open>
  A document in memory: its fields, the paths modified since it was loaded or created
  (\<^verbatim>\<open>isModified\<close>), and whether it is new. Assigning a path runs its setter and marks
  the path modified when the value differs from the current one.
\<close>

record mdoc =
  doc_fields :: doc
  doc_modified :: "string set"
  doc_isNew :: bool

definition doc_set :: "string \<Rightarrow> string \<Rightarrow> mdoc \<Rightarrow> mdoc" where
  "doc_set p v this =
     (let v' = cast_path p v
      in if doc_fields this p = Some (Str v') then this
         else this\<lparr>doc_fields := (doc_fields this)(p \<mapsto> Str v'),
                   doc_modified := insert p (doc_modified this)\<rparr>)"

definition set_from_body :: "body \<Rightarrow> mdoc \<Rightarrow> string \<Rightarrow> mdoc" where
  "set_from_body b this p = (case b p of None \<Rightarrow> this | Some v \<Rightarrow> doc_set p v this)"

text \<open>
  \<^verbatim>\<open>new User({...req.body})\<close>: a fresh identifier, the schema's defaults for
  \<^verbatim>\<open>role\<close> and \<^verbatim>\<open>avatar\<close>, and the declared paths that the body gives (strict mode
  drops every other key).
\<close>

definition new_document :: "string \<Rightarrow> body \<Rightarrow> mdoc" where
  "new_document oid b =
     foldl (set_from_body b)
       \<lparr>doc_fields = [''_id'' \<mapsto> Str oid, ''role'' \<mapsto> Str ''user'',
                  ''avatar'' \<mapsto> Str ''/img/user/default.jpg''],
        doc_modified = {}, doc_isNew = True\<rparr>
       schema_paths"

text \<open>
  \<^verbatim>\<open>userSchema.pre('save', ...)\<close>. \<^verbatim>\<open>bcrypt.hash\<close> rejects an undefined
  plaintext.
\<close>

definition illegal_arguments :: js_error where
  "illegal_arguments =
     \<lparr>err_name = ''Error'', err_statusCode = None,
      err_message = ''Illegal arguments: undefined, string'', err_errors = []\<rparr>"

definition pre_save :: "deps \<Rightarrow> string \<Rightarrow> mdoc \<Rightarrow> js_error + mdoc" where
  "pre_save ds entropy this =
     (if ''password'' \<notin> doc_modified this then Inr this
      else
        let salt = genSalt 12 entropy
        in case str_of (doc_fields this) ''password'' of
             None \<Rightarrow> Inl illegal_arguments
           | Some pw \<Rightarrow>
               Inr (doc_set ''confirmPassword'' []
                     (doc_set ''password'' (bcrypt_hash ds pw salt) this)))"

section \<open>The collection\<close>

text \<open>
  The users collection is the list of its documents in insertion order, with unique
  indexes on \<^verbatim>\<open>_id\<close> and \<^verbatim>\<open>email\<close>. \<^verbatim>\<open>select: false\<close> hides \<^verbatim>\<open>password\<close> and
  \<^verbatim>\<open>confirmPassword\<close> from query results unless a query selects them.
\<close>

type_synonym store = "doc list"

definition has_id :: "string \<Rightarrow> doc \<Rightarrow> bool" where
  "has_id i d = (d ''_id'' = Some (Str i))"

definition findById :: "store \<Rightarrow> string \<Rightarrow> doc option" where
  "findById st i = find (has_id i) st"

definition findOne_email :: "store \<Rightarrow> string \<Rightarrow> doc option" where
  "findOne_email st email = find (\<lambda>d. d ''email'' = Some (Str (cast_path ''email'' email))) st"

definition select_default :: "doc \<Rightarrow> doc" where
  "select_default d = d |` (- {''password'', ''confirmPassword''})"

definition select_plus_password :: "doc \<Rightarrow> doc" where
  "select_plus_password d = d |` (- {''confirmPassword''})"

fun update_first :: "('a \<Rightarrow> bool) \<Rightarrow> ('a \<Rightarrow> 'a) \<Rightarrow> 'a list \<Rightarrow> 'a list" where
  "update_first P f [] = []"
| "update_first P f (x # xs) = (if P x then f x # xs else x # update_first P f xs)"

definition email_taken :: "store \<Rightarrow> val option \<Rightarrow> val option \<Rightarrow> bool" where
  "email_taken st i email = list_ex (\<lambda>d. d ''_id'' \<noteq> i \<and> d ''email'' = email) st"

definition insertOne :: "nat \<Rightarrow> store \<Rightarrow> doc \<Rightarrow> (js_error + doc) \<times> store" where
  "insertOne now st d =
     (let d' = d(''createdAt'' \<mapsto> Date now, ''updatedAt'' \<mapsto> Date now, ''__v'' \<mapsto> Num 0)
      in if list_ex (\<lambda>x. x ''_id'' = d ''_id'') st
           then (Inl (duplicate_key_error ''_id''), st)
         else if email_taken st (d ''_id'') (d ''email'')
           then (Inl (duplicate_key_error ''email''), st)
         else (Inr d', st @ [d']))"

definition document_not_found :: js_error where
  "document_not_found =
     \<lparr>err_name = ''DocumentNotFoundError'', err_statusCode = None,
      err_message = ''No document found for query'', err_errors = []\<rparr>"

text \<open>Saving a loaded document writes its modified paths and the update timestamp.\<close>

definition updateOne :: "nat \<Rightarrow> store \<Rightarrow> mdoc \<Rightarrow> (js_error + doc) \<times> store" where
  "updateOne now st this =
     (case str_of (doc_fields this) ''_id'' of
        None \<Rightarrow> (Inl document_not_found, st)
      | Some i \<Rightarrow>
          (case findById st i of
             None \<Rightarrow> (Inl document_not_found, st)
           | Some old \<Rightarrow>
               let changes = (doc_fields this |` doc_modified this) ++ [''updatedAt'' \<mapsto> Date now]
               in if ''email'' \<in> doc_modified this \<and>
                     email_taken st (Some (Str i)) (doc_fields this ''email'')
                    then (Inl (duplicate_key_error ''email''), st)
                  else (Inr (doc_fields this ++ changes),
                        update_first (has_id i) (\<lambda>d. d ++ changes) st)))"

text \<open>
  \<^verbatim>\<open>doc.save()\<close>: Mongoose validates first, then runs the schema's pre-save hook,
  then writes. Both callers (\<^verbatim>\<open>User.create\<close> and \<^verbatim>\<open>updatePassword\<close>) save a
  document in which every required path is selected or modified, so every path is
  validated.
\<close>

definition save :: "deps \<Rightarrow> call \<Rightarrow> store \<Rightarrow> mdoc \<Rightarrow> (js_error + doc) \<times> store" where
  "save ds c st this =
     (case validate (doc_fields this) of
        e # es \<Rightarrow> (Inl (ValidationError (e # es)), st)
      | [] \<Rightarrow>
          (case pre_save ds (call_entropy c) this of
             Inl err \<Rightarrow> (Inl err, st)
           | Inr this' \<Rightarrow>
               if doc_isNew this' then insertOne (call_now c) st (doc_fields this')
               else updateOne (call_now c) st this'))"

definition create :: "deps \<Rightarrow> call \<Rightarrow> store \<Rightarrow> body \<Rightarrow> (js_error + doc) \<times> store" where
  "create ds c st b = save ds c st (new_document (call_oid c) b)"

text \<open>
  The update document that Mongoose makes of \<^verbatim>\<open>{ ...rest }\<close>: the keys of the
  \<^verbatim>\<open>$set\<close> operator, overlaid by the top-level keys, which are sugar for
  \<^verbatim>\<open>$set\<close>. Other update operators are not modelled.
\<close>

definition update_document :: "body \<Rightarrow> body \<Rightarrow> body" where
  "update_document rest set_op = set_op ++ rest"

text \<open>
  An \<^verbatim>\<open>ObjectId\<close> in its string form: 24 hexadecimal digits. (Older drivers also
  read any string of 12 characters as an identifier; that form is not modelled.)
\<close>

definition is_objectid :: "string \<Rightarrow> bool" where
  "is_objectid v = (length v = 24 \<and> list_all (\<lambda>c. c \<in> set ''0123456789abcdefABCDEF'') v)"

definition cast_error :: "string \<Rightarrow> string \<Rightarrow> js_error" where
  "cast_error v p =
     \<lparr>err_name = ''CastError'', err_statusCode = None,
      err_message = ''Cast to ObjectId failed for value \"'' @ v @ ''\" at path \"'' @ p @ ''\"'',
      err_errors = []\<rparr>"

definition immutable_id_error :: js_error where
  "immutable_id_error =
     \<lparr>err_name = ''MongoServerError'', err_statusCode = None,
      err_message = ''Performing an update on the path _id would modify the immutable field _id'',
      err_errors = []\<rparr>"

text \<open>
  \<^verbatim>\<open>User.findByIdAndUpdate(id, update, { new: true })\<close>. The update is cast by the
  schema (declared paths only, setters applied) and written with the update timestamp;
  the options do not ask for \<^verbatim>\<open>runValidators\<close>, so no validator runs, and nothing is
  hashed: a \<^verbatim>\<open>password\<close> in the update is stored as it is given. The path
  \<^verbatim>\<open>_id\<close> is cast to an ObjectId before the query is sent, and the database refuses
  to change it. The unique index still applies. The result is the updated document, or
  null when no document has the identifier.
\<close>

definition cast_update :: "body \<Rightarrow> doc" where
  "cast_update upd =
     (\<lambda>p. if p \<in> set schema_paths then map_option (\<lambda>v. Str (cast_path p v)) (upd p) else None)"

definition write_update ::
  "nat \<Rightarrow> store \<Rightarrow> string \<Rightarrow> body \<Rightarrow> doc \<Rightarrow> (js_error + doc option) \<times> store" where
  "write_update now st i upd old =
     (let changes = cast_update upd ++ [''updatedAt'' \<mapsto> Date now];
          new = old ++ changes
      in if upd ''email'' \<noteq> None \<and> email_taken st (Some (Str i)) (new ''email'')
           then (Inl (duplicate_key_error ''email''), st)
         else (Inr (Some (select_default new)),
               update_first (has_id i) (\<lambda>d. d ++ changes) st))"

definition findByIdAndUpdate ::
  "nat \<Rightarrow> store \<Rightarrow> string \<Rightarrow> body \<Rightarrow> (js_error + doc option) \<times> store" where
  "findByIdAndUpdate now st i upd =
     (case upd ''_id'' of
        Some v \<Rightarrow>
          if \<not> is_objectid v then (Inl (cast_error v ''_id''), st)
          else (case findById st i of
                  None \<Rightarrow> (Inr None, st)
                | Some old \<Rightarrow>
                    if v \<noteq> i then (Inl immutable_id_error, st)
                    else write_update now st i upd old)
      | None \<Rightarrow>
          (case findById st i of
             None \<Rightarrow> (Inr None, st)
           | Some old \<Rightarrow> write_update now st i upd old))"

section \<open>Statics and methods of the model\<close>

text \<open>
  \<^verbatim>\<open>findMyOrders\<close>. The populated \<^verbatim>\<open>orders\<close> come from the Order collection,
  which is outside this model: \<open>orders_of\<close> gives them for a user identifier.
\<close>

definition findMyOrders :: "(string \<Rightarrow> string list) \<Rightarrow> store \<Rightarrow> string \<Rightarrow> js_error + doc" where
  "findMyOrders orders_of st i =
     (case findById st i of
        None \<Rightarrow> Inl (createHttpError 400 (''No user with this id: '' @ i))
      | Some d \<Rightarrow> Inr ((select_default d)(''orders'' \<mapsto> Arr (orders_of i))))"

text \<open>\<^verbatim>\<open>comparePassword\<close>: \<^verbatim>\<open>bcrypt.compare\<close> rejects an undefined hash.\<close>

definition comparePassword :: "deps \<Rightarrow> string \<Rightarrow> string option \<Rightarrow> js_error + bool" where
  "comparePassword ds password userPassword =
     (case userPassword of
        None \<Rightarrow> Inl illegal_arguments
      | Some h \<Rightarrow> Inr (bcrypt_compare ds password h))"

definition findByCredentials :: "deps \<Rightarrow> store \<Rightarrow> string \<Rightarrow> string \<Rightarrow> js_error + doc" where
  "findByCredentials ds st email password =
     (case findOne_email st email of
        None \<Rightarrow> Inl (createHttpError 400 ''Invalid email!'')
      | Some d \<Rightarrow>
          let user = select_plus_password d
          in case comparePassword ds password (str_of user ''password'') of
               Inl err \<Rightarrow> Inl err
             | Inr ok \<Rightarrow>
                 if \<not> ok then Inl (createHttpError 400 ''Wrong password!'')
                 else Inr user)"

definition updatePassword ::
  "deps \<Rightarrow> call \<Rightarrow> store \<Rightarrow> string \<Rightarrow> string \<Rightarrow> string \<Rightarrow> (js_error + unit) \<times> store" where
  "updatePassword ds c st i password newPassword =
     (case findById st i of
        None \<Rightarrow> (Inl (createHttpError 400 ''Invalid email!''), st)
      | Some d \<Rightarrow>
          let user = \<lparr>doc_fields = select_plus_password d, doc_modified = {},
                      doc_isNew = False\<rparr>
          in case comparePassword ds password (str_of (doc_fields user) ''password'') of
               Inl err \<Rightarrow> (Inl err, st)
             | Inr ok \<Rightarrow>
                 if \<not> ok then (Inl (createHttpError 400 ''Wrong password!''), st)
                 else
                   let user1 = doc_set ''password'' newPassword user;
                       user2 = doc_set ''confirmPassword'' newPassword user1
                   in case save ds c st user2 of
                        (Inl err, st') \<Rightarrow> (Inl err, st')
                      | (Inr _, st') \<Rightarrow> (Inr (), st'))"

text \<open>
  \<^verbatim>\<open>generateToken\<close>: the payload is \<^verbatim>\<open>{ id: this._id }\<close>, the lifetime
  \<^verbatim>\<open>DAY_EXPIRE\<close> days.
\<close>

definition generateToken :: "deps \<Rightarrow> nat \<Rightarrow> doc \<Rightarrow> js_error + token" where
  "generateToken ds now this =
     (if \<not> truthy (SECRET_KEY ds)
        then Inl (createHttpError 503 ''Cannot create access token!'')
      else case SECRET_KEY ds of
             None \<Rightarrow> Inl (createHttpError 503 ''Cannot create access token!'')
           | Some key \<Rightarrow>
               Inr (jwt_sign (Map.empty(''id'' := this ''_id'')) key (DAY_EXPIRE ds) now))"

text \<open>
  The \<^verbatim>\<open>toJSON\<close> option of the schema: the transform deletes three keys from the
  plain object. \<^verbatim>\<open>res.json\<close> serialises every document through it.
\<close>

definition transform :: "doc \<Rightarrow> doc" where
  "transform ret = ret |` (- {''password''}) |` (- {''confirmPassword''}) |` (- {''__v''})"

definition toJSON :: "doc \<Rightarrow> doc" where
  "toJSON d = transform d"

section \<open>Request handlers\<close>

text \<open>
  A request: the string-valued keys of its JSON body, the object under the body's key
  \<^verbatim>\<open>$set\<close> (empty when the body has none), and the query string. Only an update
  reads \<^verbatim>\<open>$set\<close>; it is not a path of the schema, so \<^verbatim>\<open>User.create\<close> drops it.
\<close>

record request =
  req_body :: body
  req_body_set :: body
  req_query :: "string \<rightharpoonup> string"

text \<open>
  Modelled from the spec: \<^verbatim>\<open>setCookie\<close> of \<^verbatim>\<open>lib\<close> is not part of the sources at
  hand. By the specification of the Session Cookie Manager it sets a cookie of the
  given name, value and options on the response, and validates nothing.
\<close>

definition setCookie :: "response \<Rightarrow> string \<Rightarrow> token option \<Rightarrow> cookie_options \<Rightarrow> response" where
  "setCookie res nm v opts =
     res\<lparr>res_cookies := res_cookies res @
           [\<lparr>cookie_name = nm, cookie_value = v, cookie_opts = opts\<rparr>]\<rparr>"

definition res_json :: "response \<Rightarrow> nat \<Rightarrow> string \<Rightarrow> doc option \<Rightarrow> response" where
  "res_json res status msg user =
     res\<lparr>res_status := status, res_message := msg, res_user := map_option toJSON user\<rparr>"

text \<open>
  The authentication guard \<^verbatim>\<open>checkAuth\<close> of \<^verbatim>\<open>lib\<close> is an external collaborator
  whose source is not at hand: the handlers take it as a parameter. It either throws or
  yields the user it loads into \<^verbatim>\<open>req.user\<close>, of which the handlers read \<^verbatim>\<open>_id\<close>
  and the document itself.
\<close>

record session_user =
  user_id :: string
  user_doc :: doc

type_synonym guard = "request \<Rightarrow> js_error + session_user"

definition register ::
  "deps \<Rightarrow> call \<Rightarrow> store \<Rightarrow> request \<Rightarrow> response \<Rightarrow> (js_error + response) \<times> store" where
  "register ds c st req res =
     (case create ds c st (req_body req) of
        (Inl err, st') \<Rightarrow> (Inl err, st')
      | (Inr newUser, st') \<Rightarrow>
          (case generateToken ds (call_now c) newUser of
             Inl err \<Rightarrow> (Inl err, st')
           | Inr accessToken \<Rightarrow>
               let res1 = setCookie res ''access-token'' (Some accessToken)
                            \<lparr>httpOnly = Some True, sameSite = Some ''strict'',
                             expires = Some (EXPIRE_TIME ds)\<rparr>
               in (Inr (res_json res1 201 ''Success'' (Some newUser)), st')))"

definition signin ::
  "deps \<Rightarrow> call \<Rightarrow> store \<Rightarrow> request \<Rightarrow> response \<Rightarrow> (js_error + response) \<times> store" where
  "signin ds c st req res =
     (let email = req_body req ''email'';
          password = req_body req ''password''
      in if \<not> truthy email \<or> \<not> truthy password
           then (Inl (createHttpError 400 ''Please provide email and password!''), st)
         else
           (case (email, password) of
              (Some e, Some p) \<Rightarrow>
                (case findByCredentials ds st e p of
                   Inl err \<Rightarrow> (Inl err, st)
                 | Inr user \<Rightarrow>
                     (case generateToken ds (call_now c) user of
                        Inl err \<Rightarrow> (Inl err, st)
                      | Inr accessToken \<Rightarrow>
                          let res1 = setCookie res ''access-token'' (Some accessToken)
                                       \<lparr>httpOnly = Some True, sameSite = Some ''strict'',
                                        expires = Some (EXPIRE_TIME ds)\<rparr>
                          in (Inr (res_json res1 201 ''Success'' (Some user)), st)))
            | _ \<Rightarrow> (Inl (createHttpError 400 ''Please provide email and password!''), st)))"


definition getMe ::
  "guard \<Rightarrow> (string \<Rightarrow> string list) \<Rightarrow> store \<Rightarrow> request \<Rightarrow> response \<Rightarrow>
   (js_error + response) \<times> store" where
  "getMe checkAuth orders_of st req res =
     (case checkAuth req of
        Inl err \<Rightarrow> (Inl err, st)
      | Inr me \<Rightarrow>
          if req_query req ''orders'' = Some ''true''
            then (case findMyOrders orders_of st (user_id me) of
                    Inl err \<Rightarrow> (Inl err, st)
                  | Inr user \<Rightarrow> (Inr (res_json res 200 ''Success'' (Some user)), st))
          else (Inr (res_json res 200 ''Success'' (Some (user_doc me))), st))"

definition updateMe ::
  "guard \<Rightarrow> deps \<Rightarrow> call \<Rightarrow> store \<Rightarrow> request \<Rightarrow> response \<Rightarrow>
   (js_error + response) \<times> store" where
  "updateMe checkAuth ds c st req res =
     (case checkAuth req of
        Inl err \<Rightarrow> (Inl err, st)
      | Inr me \<Rightarrow>
          let password = req_body req ''password'';
              newPassword = req_body req ''newPassword'';
              rest = req_body req |` (- {''password'', ''newPassword''})
          in case findByIdAndUpdate (call_now c) st (user_id me)
                    (update_document rest (req_body_set req)) of
               (Inl err, st1) \<Rightarrow> (Inl err, st1)
             | (Inr None, st1) \<Rightarrow>
                 (Inl (createHttpError 404 (''No user with this id: '' @ user_id me)), st1)
             | (Inr (Some updateUser), st1) \<Rightarrow>
                 if truthy newPassword \<and> truthy password then
                   (case (password, newPassword) of
                      (Some pw, Some np) \<Rightarrow>
                        (case updatePassword ds c st1 (user_id me) pw np of
                           (Inl err, st2) \<Rightarrow> (Inl err, st2)
                         | (Inr _, st2) \<Rightarrow>
                             (Inr (res_json res 200 ''Success'' (Some updateUser)), st2))
                    | _ \<Rightarrow> (Inr (res_json res 200 ''Success'' (Some updateUser)), st1))
                 else (Inr (res_json res 200 ''Success'' (Some updateUser)), st1))"

section \<open>Observations and example inputs\<close>

text \<open>The value stored in the collection under a path of the document with a given id.\<close>

definition stored_field :: "store \<Rightarrow> string \<Rightarrow> string \<Rightarrow> val option" where
  "stored_field st i p = (case findById st i of None \<Rightarrow> None | Some d \<Rightarrow> d p)"

text \<open>The fields of the document that \<^verbatim>\<open>User.create\<close> builds from a body and validates.\<close>

definition candidate :: "call \<Rightarrow> body \<Rightarrow> doc" where
  "candidate c b = doc_fields (new_document (call_oid c) b)"

text \<open>
  Concrete inputs for the instances below: a toy hash standing in for bcrypt, a
  configured environment, one registration body and the record it leaves in the
  collection.
\<close>

definition toy_hash :: "string \<Rightarrow> salt \<Rightarrow> string" where
  "toy_hash pw s = CHR ''#'' # pw"

definition toy_compare :: "string \<Rightarrow> string \<Rightarrow> bool" where
  "toy_compare pw h = (h = CHR ''#'' # pw)"

definition demo_deps :: deps where
  "demo_deps = \<lparr>SECRET_KEY = Some ''s3cr3t'', DAY_EXPIRE = 7, EXPIRE_TIME = 604805000,
     bcrypt_hash = toy_hash, bcrypt_compare = toy_compare\<rparr>"

definition demo_call :: call where
  "demo_call = \<lparr>call_now = 5000, call_oid = ''u1'', call_entropy = ''e''\<rparr>"

definition demo_body :: body where
  "demo_body = [''name'' \<mapsto> ''Ann Lee'', ''email'' \<mapsto> ''ann@shop.io'',
     ''password'' \<mapsto> ''hunter2'', ''confirmPassword'' \<mapsto> ''hunter2'']"

definition demo_user :: doc where
  "demo_user = [''_id'' \<mapsto> Str ''u1'', ''name'' \<mapsto> Str ''Ann Lee'',
     ''email'' \<mapsto> Str ''ann@shop.io'', ''password'' \<mapsto> Str ''#hunter2'',
     ''confirmPassword'' \<mapsto> Str [], ''role'' \<mapsto> Str ''user'',
     ''avatar'' \<mapsto> Str ''/img/user/default.jpg'',
     ''createdAt'' \<mapsto> Date 5000, ''updatedAt'' \<mapsto> Date 5000, ''__v'' \<mapsto> Num 0]"

definition demo_store :: store where
  "demo_store = [demo_user]"

definition demo_req :: "body \<Rightarrow> request" where
  "demo_req b = \<lparr>req_body = b, req_body_set = Map.empty, req_query = Map.empty\<rparr>"

definition demo_res :: response where
  "demo_res = \<lparr>res_status = 200, res_message = [], res_user = None, res_cookies = []\<rparr>"

definition demo_guard :: guard where
  "demo_guard req = Inr \<lparr>user_id = ''u1'', user_doc = select_default demo_user\<rparr>"

text \<open>An environment without a signing secret, and three sign-in bodies.\<close>

definition demo_deps_nokey :: deps where
  "demo_deps_nokey = demo_deps\<lparr>SECRET_KEY := None\<rparr>"

definition demo_login :: body where
  "demo_login = [''email'' \<mapsto> ''ann@shop.io'', ''password'' \<mapsto> ''hunter2'']"

definition demo_login_unknown :: body where
  "demo_login_unknown = [''email'' \<mapsto> ''bob@shop.io'', ''password'' \<mapsto> ''hunter2'']"

definition demo_login_wrong :: body where
  "demo_login_wrong = [''email'' \<mapsto> ''ann@shop.io'', ''password'' \<mapsto> ''nope12'']"

text \<open>
  Bodies for a registration with a one-word name, for a password rotation with the right
  and with a wrong current password, and the inputs of a second registration.
\<close>

definition demo_short_name :: body where
  "demo_short_name = demo_body(''name'' \<mapsto> ''Ann'')"

definition demo_rotate :: body where
  "demo_rotate = [''password'' \<mapsto> ''hunter2'', ''newPassword'' \<mapsto> ''hunter3'']"

definition demo_rotate_wrong :: body where
  "demo_rotate_wrong = [''name'' \<mapsto> ''Eve Lee'', ''password'' \<mapsto> ''nope12'',
     ''newPassword'' \<mapsto> ''hunter3'']"

definition demo_call2 :: call where
  "demo_call2 = \<lparr>call_now = 6000, call_oid = ''u2'', call_entropy = ''f''\<rparr>"

text \<open>
  Two more profile updates: one whose body carries the operator \<^verbatim>\<open>$set\<close> on the
  password path and no current password, and one whose body carries an \<^verbatim>\<open>_id\<close>.
\<close>

definition demo_set_password :: request where
  "demo_set_password =
     \<lparr>req_body = Map.empty, req_body_set = [''password'' \<mapsto> ''pwned1''],
      req_query = Map.empty\<rparr>"

definition demo_with_id :: body where
  "demo_with_id = [''_id'' \<mapsto> ''zzz'', ''name'' \<mapsto> ''Eve Lee'']"


definition demo_rotating :: mdoc where
  "demo_rotating = \<lparr>doc_fields = demo_user(''password'' \<mapsto> Str ''hunter3'',
       ''confirmPassword'' \<mapsto> Str ''hunter3''),
     doc_modified = {''password'', ''confirmPassword''}, doc_isNew = False\<rparr>"

section \<open>Documents and the collection: basic facts\<close>

lemma trim_Nil: "trim [] = []"
  by (simp add: trim_def)

lemma doc_set_fields:
  "doc_fields (doc_set p v this) = (doc_fields this)(p \<mapsto> Str (cast_path p v))"
  by (auto simp: doc_set_def Let_def)

lemma doc_set_modified: "doc_modified this \<subseteq> doc_modified (doc_set p v this)"
  by (auto simp: doc_set_def Let_def)

lemma doc_set_modified_cases:
  "doc_modified (doc_set p v this) = doc_modified this \<or>
   doc_modified (doc_set p v this) = insert p (doc_modified this)"
  by (auto simp: doc_set_def Let_def)

lemma doc_set_isNew: "doc_isNew (doc_set p v this) = doc_isNew this"
  by (auto simp: doc_set_def Let_def)


lemma pre_save_modified:
  assumes "''password'' \<in> doc_modified this" and "pre_save ds e this = Inr this'"
  shows "\<exists>pw. str_of (doc_fields this) ''password'' = Some pw \<and>
           doc_fields this' = (doc_fields this)
             (''password'' \<mapsto> Str (cast_path ''password'' (bcrypt_hash ds pw (genSalt 12 e))),
              ''confirmPassword'' \<mapsto> Str [])"
    and "doc_modified this \<subseteq> doc_modified this'"
    and "doc_isNew this' = doc_isNew this"
    and "doc_modified this' \<subseteq> doc_modified this \<union> {''password'', ''confirmPassword''}"
proof -
  from assms obtain pw where pw: "str_of (doc_fields this) ''password'' = Some pw"
    and eq: "this' = doc_set ''confirmPassword'' []
               (doc_set ''password'' (bcrypt_hash ds pw (genSalt 12 e)) this)"
    by (auto simp: pre_save_def Let_def split: option.splits)
  let ?mid = "doc_set ''password'' (bcrypt_hash ds pw (genSalt 12 e)) this"
  have "cast_path ''confirmPassword'' [] = []"
    by (simp add: cast_path_def trim_Nil)
  with pw eq show "\<exists>pw. str_of (doc_fields this) ''password'' = Some pw \<and>
           doc_fields this' = (doc_fields this)
             (''password'' \<mapsto> Str (cast_path ''password'' (bcrypt_hash ds pw (genSalt 12 e))),
              ''confirmPassword'' \<mapsto> Str [])"
    by (simp add: doc_set_fields)
  from eq doc_set_modified [of this "''password''"] doc_set_modified [of ?mid "''confirmPassword''"]
  show "doc_modified this \<subseteq> doc_modified this'" by blast
  from eq show "doc_isNew this' = doc_isNew this" by (simp add: doc_set_isNew)
  from eq doc_set_modified_cases [of "''password''" _ this]
    doc_set_modified_cases [of "''confirmPassword''" "[]" ?mid]
  show "doc_modified this' \<subseteq> doc_modified this \<union> {''password'', ''confirmPassword''}"
    by auto
qed

lemma findById_append:
  "findById (st @ [d]) i =
     (case findById st i of Some x \<Rightarrow> Some x | None \<Rightarrow> if has_id i d then Some d else None)"
  by (induction st) (auto simp: findById_def)

lemma findById_fresh:
  "\<not> list_ex (\<lambda>x. x ''_id'' = Some (Str i)) st \<Longrightarrow> findById st i = None"
  by (induction st) (auto simp: findById_def has_id_def)

lemma findById_update_first:
  assumes "\<And>d. has_id i d \<Longrightarrow> has_id i (f d)"
  shows "findById (update_first (has_id i) f st) j =
           (if j = i then map_option f (findById st i) else findById st j)"
  using assms by (induction st) (auto simp: findById_def has_id_def)

lemma insertOne_Inr:
  assumes "insertOne now st d = (Inr r, st')"
  shows "r = d(''createdAt'' \<mapsto> Date now, ''updatedAt'' \<mapsto> Date now, ''__v'' \<mapsto> Num 0)"
    and "st' = st @ [r]"
    and "\<not> list_ex (\<lambda>x. x ''_id'' = d ''_id'') st"
    and "\<not> email_taken st (d ''_id'') (d ''email'')"
  using assms by (auto simp: insertOne_def Let_def split: if_splits)

lemma insertOne_Inl: "insertOne now st d = (Inl e, st') \<Longrightarrow> st' = st"
  by (auto simp: insertOne_def Let_def split: if_splits)

lemma updateOne_Inl: "updateOne now st this = (Inl e, st') \<Longrightarrow> st' = st"
  by (auto simp: updateOne_def Let_def split: if_splits option.splits)

lemma updateOne_Inr:
  assumes "updateOne now st this = (Inr r, st')"
  shows "\<exists>i. str_of (doc_fields this) ''_id'' = Some i \<and> findById st i \<noteq> None \<and>
           st' = update_first (has_id i)
                   (\<lambda>d. d ++ ((doc_fields this |` doc_modified this) ++ [''updatedAt'' \<mapsto> Date now])) st"
  using assms by (auto simp: updateOne_def Let_def split: if_splits option.splits)

lemma save_Inl: "save ds c st this = (Inl e, st') \<Longrightarrow> st' = st"
  by (auto simp: save_def split: list.splits sum.splits if_splits
      dest: insertOne_Inl updateOne_Inl)

lemma save_Inr:
  assumes "save ds c st this = (Inr r, st')"
  shows "validate (doc_fields this) = []"
    and "\<exists>this'. pre_save ds (call_entropy c) this = Inr this' \<and>
           (if doc_isNew this' then insertOne (call_now c) st (doc_fields this')
            else updateOne (call_now c) st this') = (Inr r, st')"
  using assms by (auto simp: save_def split: list.splits sum.splits if_splits)

lemma findById_has_id: "findById st i = Some d \<Longrightarrow> has_id i d"
  by (induction st) (auto simp: findById_def split: if_splits)

lemma stored_after_insert:
  assumes "insertOne now st d = (Inr r, st')" and "d ''_id'' = Some (Str i)"
  shows "findById st' i = Some r" and "r p = (d(''createdAt'' \<mapsto> Date now, ''updatedAt'' \<mapsto> Date now, ''__v'' \<mapsto> Num 0)) p"
proof -
  note ins = insertOne_Inr [OF assms(1)]
  from ins(3) assms(2) have "findById st i = None"
    by (simp add: findById_fresh)
  moreover from ins(1) assms(2) have "has_id i r"
    by (simp add: has_id_def)
  ultimately show "findById st' i = Some r"
    using ins(2) by (simp add: findById_append)
  show "r p = (d(''createdAt'' \<mapsto> Date now, ''updatedAt'' \<mapsto> Date now, ''__v'' \<mapsto> Num 0)) p"
    using ins(1) by simp
qed

lemma stored_after_update:
  assumes "updateOne now st this = (Inr r, st')" and "doc_fields this ''_id'' = Some (Str i)"
  shows "\<exists>old. findById st i = Some old \<and>
           findById st' i =
             Some (old ++ ((doc_fields this |` doc_modified this) ++ [''updatedAt'' \<mapsto> Date now]))"
proof -
  let ?ch = "(doc_fields this |` doc_modified this) ++ [''updatedAt'' \<mapsto> Date now]"
  from updateOne_Inr [OF assms(1)] assms(2)
  obtain old where old: "findById st i = Some old"
    and st': "st' = update_first (has_id i) (\<lambda>d. d ++ ?ch) st"
    by (auto simp: str_of_def)
  have keep: "has_id i (d ++ ?ch)" if "has_id i d" for d
    using that assms(2) by (auto simp: has_id_def map_add_def restrict_map_def)
  show ?thesis
    using old st' findById_update_first [of i "\<lambda>d. d ++ ?ch" st i, OF keep] by simp
qed

lemma validate_Nil:
  "validate d = [] \<longleftrightarrow>
     validate_name d = [] \<and> validate_email d = [] \<and> validate_password d = [] \<and>
     validate_confirmPassword d = [] \<and> validate_role d = []"
  by (simp add: validate_def)

lemma validate_confirmPassword_Nil:
  "validate_confirmPassword d = [] \<longleftrightarrow>
     (\<exists>v. v \<noteq> [] \<and> d ''confirmPassword'' = Some (Str v) \<and> d ''password'' = Some (Str v))"
  by (auto simp: validate_confirmPassword_def str_of_def split: option.splits val.splits)

lemma pre_save_marks_confirm:
  assumes "''password'' \<in> doc_modified this" and "pre_save ds e this = Inr this'"
    and "validate_confirmPassword (doc_fields this) = []"
  shows "''confirmPassword'' \<in> doc_modified this'"
  using assms
  by (auto simp: pre_save_def Let_def doc_set_def validate_confirmPassword_Nil
      cast_path_def trimmed_paths_def trim_Nil split: option.splits if_splits)

lemma save_modified_stored:
  assumes sv: "save ds c st this = (Inr r, st')"
    and idf: "doc_fields this ''_id'' = Some (Str i)"
    and md: "''password'' \<in> doc_modified this"
  shows "\<exists>pw. str_of (doc_fields this) ''password'' = Some pw \<and>
           stored_field st' i ''password'' =
             Some (Str (cast_path ''password''
               (bcrypt_hash ds pw (genSalt 12 (call_entropy c)))))"
    and "stored_field st' i ''confirmPassword'' = Some (Str [])"
proof -
  from save_Inr(2) [OF sv] obtain this' where
    ps: "pre_save ds (call_entropy c) this = Inr this'" and
    wr: "(if doc_isNew this' then insertOne (call_now c) st (doc_fields this')
          else updateOne (call_now c) st this') = (Inr r, st')"
    by blast
  from pre_save_modified(1) [OF md ps] obtain pw where
    pw: "str_of (doc_fields this) ''password'' = Some pw" and
    fs: "doc_fields this' = (doc_fields this)
           (''password'' \<mapsto> Str (cast_path ''password''
               (bcrypt_hash ds pw (genSalt 12 (call_entropy c)))),
            ''confirmPassword'' \<mapsto> Str [])"
    by blast
  from pre_save_modified(2) [OF md ps] md
  have md': "''password'' \<in> doc_modified this'" by blast
  from save_Inr(1) [OF sv] have "validate_confirmPassword (doc_fields this) = []"
    by (simp add: validate_Nil)
  from pre_save_marks_confirm [OF md ps this]
  have cm': "''confirmPassword'' \<in> doc_modified this'" .
  from fs idf have idf': "doc_fields this' ''_id'' = Some (Str i)" by simp
  show "\<exists>pw. str_of (doc_fields this) ''password'' = Some pw \<and>
           stored_field st' i ''password'' =
             Some (Str (cast_path ''password''
               (bcrypt_hash ds pw (genSalt 12 (call_entropy c)))))"
  proof (cases "doc_isNew this'")
    case True
    with wr have "insertOne (call_now c) st (doc_fields this') = (Inr r, st')" by simp
    from stored_after_insert(1) [OF this idf']
      stored_after_insert(2) [OF this idf', of "''password''"] fs pw show ?thesis
      by (simp add: stored_field_def)
  next
    case False
    with wr have "updateOne (call_now c) st this' = (Inr r, st')" by simp
    from stored_after_update [OF this idf'] fs md' pw show ?thesis
      by (auto simp: stored_field_def map_add_def restrict_map_def)
  qed
  show "stored_field st' i ''confirmPassword'' = Some (Str [])"
  proof (cases "doc_isNew this'")
    case True
    with wr have "insertOne (call_now c) st (doc_fields this') = (Inr r, st')" by simp
    from stored_after_insert(1) [OF this idf']
      stored_after_insert(2) [OF this idf', of "''confirmPassword''"] fs show ?thesis
      by (simp add: stored_field_def)
  next
    case False
    with wr have "updateOne (call_now c) st this' = (Inr r, st')" by simp
    from stored_after_update [OF this idf'] fs cm' show ?thesis
      by (auto simp: stored_field_def map_add_def restrict_map_def)
  qed
qed



section \<open>Validators and new documents\<close>

lemma name_validator_words:
  "name_validator n \<longleftrightarrow>
     (\<exists>w1 w2 ws. split_space n = w1 # w2 # ws \<and> w1 \<noteq> [] \<and> w2 \<noteq> [])"
  by (cases "split_space n"; cases "tl (split_space n)")
     (auto simp: name_validator_def nth_opt_def truthy_def Let_def)

lemma validate_name_Nil:
  "validate_name d = [] \<longleftrightarrow> (\<exists>n. d ''name'' = Some (Str n) \<and> name_validator n)"
  by (auto simp: validate_name_def str_of_def name_validator_def nth_opt_def truthy_def
      split: option.splits val.splits)

lemma validate_email_Nil:
  "validate_email d = [] \<longleftrightarrow> (\<exists>e. d ''email'' = Some (Str e) \<and> e \<noteq> [] \<and> rx_test email_rx e)"
  by (auto simp: validate_email_def str_of_def split: option.splits val.splits)

lemma validate_password_Nil:
  "validate_password d = [] \<longleftrightarrow> (\<exists>p. d ''password'' = Some (Str p) \<and> 6 \<le> length p)"
  by (auto simp: validate_password_def str_of_def split: option.splits val.splits)

lemma validate_role_Nil:
  "validate_role d = [] \<longleftrightarrow> (\<forall>r. d ''role'' = Some (Str r) \<longrightarrow> r \<in> set UserRole_values)"
  by (auto simp: validate_role_def str_of_def split: option.splits val.splits)

lemma fold_body_modified_mono:
  "doc_modified this \<subseteq> doc_modified (foldl (set_from_body b) this ps)"
proof (induction ps arbitrary: this)
  case Nil
  show ?case by simp
next
  case (Cons q qs)
  have "doc_modified this \<subseteq> doc_modified (set_from_body b this q)"
    using doc_set_modified by (auto simp: set_from_body_def split: option.splits)
  with Cons [of "set_from_body b this q"] show ?case by auto
qed

lemma fold_body_marks:
  "p \<in> set ps \<Longrightarrow> b p = Some v \<Longrightarrow> doc_fields this p = None \<Longrightarrow>
   p \<in> doc_modified (foldl (set_from_body b) this ps)"
proof (induction ps arbitrary: this)
  case Nil
  then show ?case by simp
next
  case (Cons q qs)
  show ?case
  proof (cases "q = p")
    case True
    with Cons.prems have "p \<in> doc_modified (set_from_body b this q)"
      by (simp add: set_from_body_def doc_set_def Let_def)
    with fold_body_modified_mono [of "set_from_body b this q" b qs] show ?thesis
      by auto
  next
    case False
    with Cons.prems have "p \<in> set qs" and "doc_fields (set_from_body b this q) p = None"
      by (auto simp: set_from_body_def doc_set_fields split: option.splits)
    from Cons.IH [OF this(1) Cons.prems(2) this(2)] show ?thesis by simp
  qed
qed

lemma fold_body_fields_other:
  "p \<notin> set ps \<Longrightarrow> doc_fields (foldl (set_from_body b) this ps) p = doc_fields this p"
  by (induction ps arbitrary: this)
     (auto simp: set_from_body_def doc_set_fields split: option.splits)

lemma fold_body_fields_absent:
  "b p = None \<Longrightarrow> doc_fields (foldl (set_from_body b) this ps) p = doc_fields this p"
  by (induction ps arbitrary: this)
     (auto simp: set_from_body_def doc_set_fields split: option.splits)

lemma fold_body_isNew: "doc_isNew (foldl (set_from_body b) this ps) = doc_isNew this"
  by (induction ps arbitrary: this)
     (auto simp: set_from_body_def doc_set_isNew split: option.splits)

lemma new_document_id: "doc_fields (new_document oid b) ''_id'' = Some (Str oid)"
  unfolding new_document_def
  by (subst fold_body_fields_other) (simp_all add: schema_paths_def)

lemma new_document_isNew: "doc_isNew (new_document oid b)"
  by (simp add: new_document_def fold_body_isNew)

lemma new_document_password:
  "doc_fields (new_document oid b) ''password'' = Some x \<Longrightarrow>
   ''password'' \<in> doc_modified (new_document oid b)"
proof -
  assume a: "doc_fields (new_document oid b) ''password'' = Some x"
  show ?thesis
  proof (cases "b ''password''")
    case None
    from fold_body_fields_absent [of b "''password''", OF None] a show ?thesis
      by (simp add: new_document_def)
  next
    case (Some v)
    show ?thesis
      unfolding new_document_def
      by (rule fold_body_marks [of "''password''" _ b v]) (simp_all add: schema_paths_def Some)
  qed
qed

lemma fold_body_fields:
  "doc_fields (foldl (set_from_body b) this ps) p =
     (if p \<in> set ps
      then (case b p of None \<Rightarrow> doc_fields this p | Some v \<Rightarrow> Some (Str (cast_path p v)))
      else doc_fields this p)"
  by (induction ps arbitrary: this)
     (auto simp: set_from_body_def doc_set_fields split: option.splits)

lemma new_document_role: "\<exists>r. doc_fields (new_document oid b) ''role'' = Some (Str r)"
  unfolding new_document_def
  by (subst fold_body_fields) (simp split: option.splits)

lemma create_Inr:
  assumes cr: "create ds c st b = (Inr r, st')"
  shows "validate (candidate c b) = []"
    and "st' = st @ [r]"
    and "\<exists>pw. candidate c b ''password'' = Some (Str pw) \<and>
           r = (candidate c b)
             (''password'' \<mapsto> Str (cast_path ''password''
                 (bcrypt_hash ds pw (genSalt 12 (call_entropy c)))),
              ''confirmPassword'' \<mapsto> Str [],
              ''createdAt'' \<mapsto> Date (call_now c), ''updatedAt'' \<mapsto> Date (call_now c),
              ''__v'' \<mapsto> Num 0)"
    and "\<forall>x \<in> set st. x ''email'' \<noteq> candidate c b ''email''"
proof -
  let ?nd = "new_document (call_oid c) b"
  from cr have sv: "save ds c st ?nd = (Inr r, st')" by (simp add: create_def)
  from save_Inr(1) [OF sv] show v: "validate (candidate c b) = []"
    by (simp add: candidate_def)
  then obtain p where p: "doc_fields ?nd ''password'' = Some (Str p)"
    by (auto simp: validate_Nil validate_password_Nil candidate_def)
  from new_document_password [OF p] have md: "''password'' \<in> doc_modified ?nd" .
  from save_Inr(2) [OF sv] obtain this' where
    ps: "pre_save ds (call_entropy c) ?nd = Inr this'" and
    wr: "(if doc_isNew this' then insertOne (call_now c) st (doc_fields this')
          else updateOne (call_now c) st this') = (Inr r, st')"
    by blast
  from pre_save_modified(3) [OF md ps] new_document_isNew wr
  have ins: "insertOne (call_now c) st (doc_fields this') = (Inr r, st')" by simp
  from pre_save_modified(1) [OF md ps] p
  have fs: "doc_fields this' = (doc_fields ?nd)
           (''password'' \<mapsto> Str (cast_path ''password''
               (bcrypt_hash ds p (genSalt 12 (call_entropy c)))),
            ''confirmPassword'' \<mapsto> Str [])"
    by (simp add: str_of_def)
  note io = insertOne_Inr [OF ins]
  from io(2) show "st' = st @ [r]" .
  from io(1) fs p show "\<exists>pw. candidate c b ''password'' = Some (Str pw) \<and>
           r = (candidate c b)
             (''password'' \<mapsto> Str (cast_path ''password''
                 (bcrypt_hash ds pw (genSalt 12 (call_entropy c)))),
              ''confirmPassword'' \<mapsto> Str [],
              ''createdAt'' \<mapsto> Date (call_now c), ''updatedAt'' \<mapsto> Date (call_now c),
              ''__v'' \<mapsto> Num 0)"
    by (simp add: candidate_def)
  from io(3,4) fs show "\<forall>x \<in> set st. x ''email'' \<noteq> candidate c b ''email''"
    by (auto simp: email_taken_def list_ex_iff candidate_def)
qed

lemma create_Inl:
  assumes cr: "create ds c st b = (Inl e, st')"
  shows "st' = st"
    and "validate (candidate c b) \<noteq> [] \<Longrightarrow> e = ValidationError (validate (candidate c b))"
    and "validate (candidate c b) = [] \<Longrightarrow>
           e = duplicate_key_error ''_id'' \<or> e = duplicate_key_error ''email''"
proof -
  let ?nd = "new_document (call_oid c) b"
  from cr have sv: "save ds c st ?nd = (Inl e, st')" by (simp add: create_def)
  from save_Inl [OF sv] show "st' = st" .
  show "e = ValidationError (validate (candidate c b))" if "validate (candidate c b) \<noteq> []"
    using that sv by (auto simp: save_def candidate_def split: list.splits)
  show "e = duplicate_key_error ''_id'' \<or> e = duplicate_key_error ''email''"
    if v: "validate (candidate c b) = []"
  proof -
    from v obtain p where p: "doc_fields ?nd ''password'' = Some (Str p)"
      by (auto simp: validate_Nil validate_password_Nil candidate_def)
    from new_document_password [OF p] have md: "''password'' \<in> doc_modified ?nd" .
    from p md obtain this' where ps: "pre_save ds (call_entropy c) ?nd = Inr this'"
      by (auto simp: pre_save_def str_of_def Let_def)
    from pre_save_modified(3) [OF md ps] new_document_isNew have "doc_isNew this'" by simp
    with sv v ps have "insertOne (call_now c) st (doc_fields this') = (Inl e, st')"
      by (simp add: save_def candidate_def)
    then show ?thesis
      by (auto simp: insertOne_def Let_def split: if_splits)
  qed
qed

section \<open>Updates and password rotation\<close>

lemma cast_update_no_id: "cast_update upd ''_id'' = None"
  by (simp add: cast_update_def schema_paths_def)

lemma findByIdAndUpdate_store:
  assumes "findByIdAndUpdate now st i upd = (out, st1)"
  shows "st1 = st \<or>
         (\<exists>old. findById st i = Some old \<and>
            st1 = update_first (has_id i)
                    (\<lambda>d. d ++ (cast_update upd ++ [''updatedAt'' \<mapsto> Date now])) st)"
  using assms
  by (auto simp: findByIdAndUpdate_def write_update_def Let_def split: option.splits if_splits)

lemma findByIdAndUpdate_unwritten:
  "findByIdAndUpdate now st i upd = (Inl e, st1) \<Longrightarrow> st1 = st"
  "findByIdAndUpdate now st i upd = (Inr None, st1) \<Longrightarrow> st1 = st"
  by (auto simp: findByIdAndUpdate_def write_update_def Let_def split: option.splits if_splits)

lemma findById_after_findByIdAndUpdate:
  assumes "findByIdAndUpdate now st i upd = (out, st1)"
  shows "findById st1 j = findById st j \<or>
         (j = i \<and> (\<exists>old. findById st i = Some old \<and>
            findById st1 i = Some (old ++ (cast_update upd ++ [''updatedAt'' \<mapsto> Date now]))))"
proof -
  let ?ch = "cast_update upd ++ [''updatedAt'' \<mapsto> Date now]"
  have keep: "has_id i (d ++ ?ch)" if "has_id i d" for d
    using that by (simp add: has_id_def map_add_def cast_update_no_id)
  from findByIdAndUpdate_store [OF assms] show ?thesis
    using findById_update_first [of i "\<lambda>d. d ++ ?ch" st j, OF keep]
    by (cases "j = i") auto
qed

lemma findByIdAndUpdate_keeps_password:
  assumes "findByIdAndUpdate now st i upd = (out, st1)" and "upd ''password'' = None"
  shows "stored_field st1 j ''password'' = stored_field st j ''password''"
  using findById_after_findByIdAndUpdate [OF assms(1), of j] assms(2)
  by (auto simp: stored_field_def map_add_def cast_update_def)

lemma updatePassword_wrong:
  assumes "stored_field st i ''password'' = Some (Str h)" and "\<not> bcrypt_compare ds pw h"
  shows "updatePassword ds c st i pw np = (Inl (createHttpError 400 ''Wrong password!''), st)"
  using assms
  by (auto simp: updatePassword_def stored_field_def comparePassword_def
      select_plus_password_def str_of_def restrict_map_def Let_def split: option.splits)

lemma updatePassword_changes:
  assumes up: "updatePassword ds c st i pw np = (out, st2)"
    and ch: "stored_field st2 j ''password'' \<noteq> stored_field st j ''password''"
  shows "j = i \<and> (\<exists>h. stored_field st i ''password'' = Some (Str h) \<and> bcrypt_compare ds pw h)"
proof (cases "findById st i")
  case None
  with up ch show ?thesis by (simp add: updatePassword_def)
next
  case (Some d)
  let ?user = "\<lparr>doc_fields = select_plus_password d, doc_modified = {}, doc_isNew = False\<rparr>"
  let ?u2 = "doc_set ''confirmPassword'' np (doc_set ''password'' np ?user)"
  from up ch Some obtain h where h: "d ''password'' = Some (Str h)" and ok: "bcrypt_compare ds pw h"
    and st2: "st2 = snd (save ds c st ?u2)"
    by (auto simp: updatePassword_def comparePassword_def select_plus_password_def
        str_of_def restrict_map_def Let_def split: option.splits val.splits if_splits sum.splits prod.splits)
  have idu: "doc_fields ?u2 ''_id'' = Some (Str i)"
    using findById_has_id [OF Some]
    by (simp add: doc_set_fields select_plus_password_def restrict_map_def has_id_def)
  have new: "\<not> doc_isNew ?u2" by (simp add: doc_set_isNew)
  obtain o2 where s2: "save ds c st ?u2 = (o2, st2)"
    using st2 by (cases "save ds c st ?u2") simp
  have "j = i"
  proof (rule ccontr)
    assume ne: "j \<noteq> i"
    show False
    proof (cases o2)
      case (Inl e)
      with s2 save_Inl have "st2 = st" by blast
      with ch show False by simp
    next
      case (Inr r)
      from save_Inr(2) [OF s2 [unfolded Inr]] obtain this' where
        ps: "pre_save ds (call_entropy c) ?u2 = Inr this'" and
        wr: "(if doc_isNew this' then insertOne (call_now c) st (doc_fields this')
              else updateOne (call_now c) st this') = (Inr r, st2)"
        by blast
      have "doc_isNew this' = False \<and> doc_fields this' ''_id'' = Some (Str i)"
        using ps idu new
        by (auto simp: pre_save_def Let_def doc_set_isNew doc_set_fields split: if_splits option.splits)
      with wr have uo: "updateOne (call_now c) st this' = (Inr r, st2)"
        and id': "doc_fields this' ''_id'' = Some (Str i)" by simp_all
      let ?ch = "(doc_fields this' |` doc_modified this') ++ [''updatedAt'' \<mapsto> Date (call_now c)]"
      from updateOne_Inr [OF uo] id'
      have st2': "st2 = update_first (has_id i) (\<lambda>d. d ++ ?ch) st"
        by (auto simp: str_of_def)
      have keep: "has_id i (d ++ ?ch)" if "has_id i d" for d
        using that id' by (auto simp: has_id_def map_add_def restrict_map_def)
      from findById_update_first [of i "\<lambda>d. d ++ ?ch" st j, OF keep] ne st2'
      have "findById st2 j = findById st j" by simp
      with ch show False by (simp add: stored_field_def)
    qed
  qed
  with h ok Some show ?thesis by (simp add: stored_field_def)
qed

lemma update_document_password:
  "set_op ''password'' = None \<Longrightarrow>
   update_document (b |` (- {''password'', ''newPassword''})) set_op ''password'' = None"
  by (simp add: update_document_def map_add_def restrict_map_def)

lemma updateMe_store:
  assumes "checkAuth req = Inr me"
    and "findByIdAndUpdate (call_now c) st (user_id me)
           (update_document (req_body req |` (- {''password'', ''newPassword''}))
              (req_body_set req)) = (o1, st1)"
    and "updateMe checkAuth ds c st req res = (out, st')"
  shows "st' = st1 \<or>
       (\<exists>pw np o2. req_body req ''password'' = Some pw \<and> pw \<noteq> [] \<and>
          req_body req ''newPassword'' = Some np \<and> np \<noteq> [] \<and>
          updatePassword ds c st1 (user_id me) pw np = (o2, st'))"
  using assms
  by (auto simp: updateMe_def truthy_def Let_def
      split: sum.splits prod.splits option.splits if_splits)

lemma updateMe_update_fails:
  assumes "checkAuth req = Inr me"
    and "findByIdAndUpdate (call_now c) st (user_id me)
           (update_document (req_body req |` (- {''password'', ''newPassword''}))
              (req_body_set req)) = (Inl e, st1)"
  shows "updateMe checkAuth ds c st req res = (Inl e, st)"
  using assms findByIdAndUpdate_unwritten(1) [OF assms(2)]
  by (simp add: updateMe_def Let_def)

lemma updateMe_rotates_only_verified:
  assumes me: "checkAuth req = Inr me"
    and fu: "findByIdAndUpdate (call_now c) st (user_id me)
           (update_document (req_body req |` (- {''password'', ''newPassword''}))
              (req_body_set req)) = (o1, st1)"
    and um: "updateMe checkAuth ds c st req res = (out, st')"
    and ch: "stored_field st' j ''password'' \<noteq> stored_field st1 j ''password''"
  shows "j = user_id me \<and>
         (\<exists>pw h. req_body req ''password'' = Some pw \<and>
            stored_field st1 j ''password'' = Some (Str h) \<and> bcrypt_compare ds pw h)"
proof -
  from updateMe_store [OF me fu um] ch obtain pw np o2 where
    pw: "req_body req ''password'' = Some pw" and
    up: "updatePassword ds c st1 (user_id me) pw np = (o2, st')"
    by auto
  from updatePassword_changes [OF up ch] pw show ?thesis
    by auto
qed

lemma updateMe_wrong_password:
  assumes me: "checkAuth req = Inr me"
    and fu: "findByIdAndUpdate (call_now c) st (user_id me)
           (update_document (req_body req |` (- {''password'', ''newPassword''}))
              (req_body_set req)) = (Inr (Some u), st1)"
    and pw: "req_body req ''password'' = Some pw" "pw \<noteq> []"
    and np: "req_body req ''newPassword'' = Some np" "np \<noteq> []"
    and h: "stored_field st1 (user_id me) ''password'' = Some (Str h)"
    and bad: "\<not> bcrypt_compare ds pw h"
  shows "updateMe checkAuth ds c st req res =
           (Inl (createHttpError 400 ''Wrong password!''), st1)"
  using me fu pw np updatePassword_wrong [OF h bad, of c np]
  by (simp add: updateMe_def Let_def truthy_def)

section \<open>Handlers: what a response shows\<close>

lemma transform_hides:
  "transform ret ''password'' = None \<and> transform ret ''confirmPassword'' = None"
  by (simp add: transform_def restrict_map_def)

lemma res_json_user: "res_user (res_json res n m u) = map_option toJSON u"
  by (simp add: res_json_def)

lemma register_user:
  "register ds c st req res = (Inr r, st') \<Longrightarrow> \<exists>d. res_user r = Some (toJSON d)"
  by (auto simp: register_def res_json_def Let_def split: prod.splits sum.splits)

lemma signin_user:
  "signin ds c st req res = (Inr r, st') \<Longrightarrow> \<exists>d. res_user r = Some (toJSON d)"
  by (auto simp: signin_def res_json_def Let_def split: prod.splits sum.splits if_splits option.splits)

lemma getMe_user:
  "getMe checkAuth orders_of st req res = (Inr r, st') \<Longrightarrow> \<exists>d. res_user r = Some (toJSON d)"
  by (auto simp: getMe_def res_json_def Let_def split: prod.splits sum.splits if_splits option.splits)

lemma updateMe_user:
  "updateMe checkAuth ds c st req res = (Inr r, st') \<Longrightarrow> \<exists>d. res_user r = Some (toJSON d)"
  by (auto simp: updateMe_def res_json_def Let_def split: prod.splits sum.splits if_splits option.splits)


lemma findByCredentials_cases:
  "findByCredentials ds st e p =
     (case findOne_email st e of
        None \<Rightarrow> Inl (createHttpError 400 ''Invalid email!'')
      | Some d \<Rightarrow>
          (case str_of d ''password'' of
             None \<Rightarrow> Inl illegal_arguments
           | Some h \<Rightarrow>
               if bcrypt_compare ds p h then Inr (select_plus_password d)
               else Inl (createHttpError 400 ''Wrong password!'')))"
  by (auto simp: findByCredentials_def comparePassword_def select_plus_password_def
      str_of_def restrict_map_def Let_def split: option.splits val.splits)


section \<open>Success paths\<close>

lemma pre_save_total:
  assumes "validate_password (doc_fields this) = []"
  shows "\<exists>this'. pre_save ds e this = Inr this'"
  using assms
  by (auto simp: pre_save_def validate_password_Nil str_of_def Let_def)

lemma pre_save_keeps:
  assumes "pre_save ds e this = Inr this'"
  shows "doc_isNew this' = doc_isNew this"
    and "doc_fields this' ''_id'' = doc_fields this ''_id''"
    and "doc_fields this' ''email'' = doc_fields this ''email''"
    and "doc_modified this' \<subseteq> doc_modified this \<union> {''password'', ''confirmPassword''}"
  using assms doc_set_modified_cases [of "''confirmPassword''" "[]"]
    doc_set_modified_cases [of "''password''" _ this]
  by (auto simp: pre_save_def Let_def doc_set_isNew doc_set_fields
      split: if_splits option.splits)

lemma create_succeeds:
  assumes v: "validate (candidate c b) = []"
    and fresh: "\<forall>x \<in> set st. x ''_id'' \<noteq> Some (Str (call_oid c)) \<and>
                  x ''email'' \<noteq> candidate c b ''email''"
  shows "\<exists>r. create ds c st b = (Inr r, st @ [r])"
proof -
  let ?nd = "new_document (call_oid c) b"
  from v have "validate_password (doc_fields ?nd) = []"
    by (simp add: validate_Nil candidate_def)
  from pre_save_total [OF this] obtain this' where
    ps: "pre_save ds (call_entropy c) ?nd = Inr this'" by blast
  from pre_save_keeps [OF ps] new_document_isNew new_document_id
  have k: "doc_isNew this'" "doc_fields this' ''_id'' = Some (Str (call_oid c))"
    "doc_fields this' ''email'' = candidate c b ''email''"
    by (simp_all add: candidate_def)
  from fresh k have "\<not> list_ex (\<lambda>x. x ''_id'' = doc_fields this' ''_id'') st"
    and "\<not> email_taken st (doc_fields this' ''_id'') (doc_fields this' ''email'')"
    by (auto simp: list_ex_iff email_taken_def)
  then have "\<exists>r. insertOne (call_now c) st (doc_fields this') = (Inr r, st @ [r])"
    by (simp add: insertOne_def Let_def)
  with v ps k(1) show ?thesis
    by (simp add: create_def save_def candidate_def)
qed

lemma save_existing_succeeds:
  assumes v: "validate (doc_fields this) = []" and old: "\<not> doc_isNew this"
    and idf: "doc_fields this ''_id'' = Some (Str i)"
    and found: "findById st i \<noteq> None"
    and em: "''email'' \<notin> doc_modified this"
  shows "\<exists>r st'. save ds c st this = (Inr r, st')"
proof -
  from v have "validate_password (doc_fields this) = []"
    by (simp add: validate_Nil)
  from pre_save_total [OF this] obtain this' where
    ps: "pre_save ds (call_entropy c) this = Inr this'" by blast
  from pre_save_keeps [OF ps] old idf em
  have k: "\<not> doc_isNew this'" "doc_fields this' ''_id'' = Some (Str i)"
    "''email'' \<notin> doc_modified this'"
    by auto
  with found have "\<exists>r st'. updateOne (call_now c) st this' = (Inr r, st')"
    by (auto simp: updateOne_def str_of_def Let_def)
  with v ps k(1) show ?thesis
    by (simp add: save_def)
qed

lemma register_after_create:
  assumes "create ds c st (req_body req) = (Inr u, st')"
  shows "truthy (SECRET_KEY ds) \<Longrightarrow> \<exists>r. register ds c st req res = (Inr r, st')"
    and "\<not> truthy (SECRET_KEY ds) \<Longrightarrow>
           register ds c st req res =
             (Inl (createHttpError 503 ''Cannot create access token!''), st')"
  using assms
  by (auto simp: register_def generateToken_def truthy_def Let_def split: option.splits)

lemma findByIdAndUpdate_found:
  assumes "findById st i = Some old" and "upd ''email'' = None" and "upd ''_id'' = None"
  shows "findByIdAndUpdate now st i upd =
           (Inr (Some (select_default (old ++ (cast_update upd ++ [''updatedAt'' \<mapsto> Date now])))),
            update_first (has_id i)
              (\<lambda>d. d ++ (cast_update upd ++ [''updatedAt'' \<mapsto> Date now])) st)"
  using assms by (simp add: findByIdAndUpdate_def write_update_def Let_def)

lemma stored_after_findByIdAndUpdate:
  assumes "findByIdAndUpdate now st i upd = (Inr (Some u), st1)"
  shows "\<exists>old. findById st i = Some old \<and>
           stored_field st1 i p =
             (old ++ (cast_update upd ++ [''updatedAt'' \<mapsto> Date now])) p"
proof -
  let ?ch = "cast_update upd ++ [''updatedAt'' \<mapsto> Date now]"
  from assms obtain old where old: "findById st i = Some old"
    and st1: "st1 = update_first (has_id i) (\<lambda>d. d ++ ?ch) st"
    by (auto simp: findByIdAndUpdate_def write_update_def Let_def split: option.splits if_splits)
  have keep: "has_id i (d ++ ?ch)" if "has_id i d" for d
    using that by (simp add: has_id_def map_add_def cast_update_no_id)
  from findById_update_first [of i "\<lambda>d. d ++ ?ch" st i, OF keep] old st1
  show ?thesis by (simp add: stored_field_def)
qed


section \<open>The example inputs evaluated\<close>

lemma candidate_field:
  "candidate c b p =
     (if p \<in> set schema_paths \<and> b p \<noteq> None
      then map_option (\<lambda>v. Str (cast_path p v)) (b p)
      else [''_id'' \<mapsto> Str (call_oid c), ''role'' \<mapsto> Str ''user'',
            ''avatar'' \<mapsto> Str ''/img/user/default.jpg''] p)"
  unfolding candidate_def new_document_def
  by (subst fold_body_fields) (auto split: option.splits)

lemma demo_email_ok: "rx_test email_rx ''ann@shop.io''"
  by code_simp

lemma demo_trim:
  "trim ''Ann Lee'' = ''Ann Lee''" "trim ''ann@shop.io'' = ''ann@shop.io''"
  "trim ''hunter2'' = ''hunter2''"
  by (simp_all add: trim_def is_space_def)

lemma demo_candidate:
  "candidate demo_call demo_body ''name'' = Some (Str ''Ann Lee'')"
  "candidate demo_call demo_body ''email'' = Some (Str ''ann@shop.io'')"
  "candidate demo_call demo_body ''password'' = Some (Str ''hunter2'')"
  "candidate demo_call demo_body ''confirmPassword'' = Some (Str ''hunter2'')"
  "candidate demo_call demo_body ''role'' = Some (Str ''user'')"
  by (simp_all add: candidate_field schema_paths_def demo_body_def cast_path_def
      trimmed_paths_def demo_trim)

lemma demo_name_ok: "name_validator ''Ann Lee''"
  by (simp add: name_validator_def nth_opt_def truthy_def)

lemma demo_valid: "validate (candidate demo_call demo_body) = []"
  unfolding validate_Nil validate_name_Nil validate_email_Nil validate_password_Nil
    validate_confirmPassword_Nil validate_role_Nil
  by (simp add: demo_candidate demo_name_ok demo_email_ok UserRole_values_def
      del: rx_test.simps)


lemma demo_create: "\<exists>r. create ds demo_call [] demo_body = (Inr r, [r])"
  using create_succeeds [OF demo_valid, of "[]" ds] by simp

lemma demo_findById: "findById demo_store ''u1'' = Some demo_user"
  by (simp add: findById_def demo_store_def has_id_def demo_user_def)

lemma demo_stored:
  "stored_field demo_store ''u1'' ''password'' = Some (Str ''#hunter2'')"
  "stored_field demo_store ''u1'' ''name'' = Some (Str ''Ann Lee'')"
  by (simp_all add: stored_field_def demo_findById) (simp_all add: demo_user_def)

lemma demo_hash:
  "cast_path ''password'' (toy_hash ''hunter2'' s) = ''#hunter2''"
  "cast_path ''password'' (toy_hash ''hunter3'' s) = ''#hunter3''"
  by (simp_all add: cast_path_def trimmed_paths_def toy_hash_def trim_def is_space_def)


lemma demo_rotating_valid: "validate (doc_fields demo_rotating) = []"
  unfolding validate_Nil validate_name_Nil validate_email_Nil validate_password_Nil
    validate_confirmPassword_Nil validate_role_Nil
  by (simp add: demo_rotating_def demo_user_def demo_name_ok demo_email_ok UserRole_values_def
      del: rx_test.simps)

lemma demo_new_modified: "''password'' \<in> doc_modified (new_document ''u1'' demo_body)"
  using new_document_password [of "''u1''" demo_body] demo_candidate(3)
  by (simp add: candidate_def demo_call_def)


lemma findOne_email_Some:
  "findOne_email st e = Some d \<Longrightarrow> d \<in> set st \<and> d ''email'' = Some (Str (cast_path ''email'' e))"
  by (auto simp: findOne_email_def find_Some_iff)

lemma signin_cases:
  "(\<not> truthy (req_body req ''email'') \<or> \<not> truthy (req_body req ''password'') \<longrightarrow>
      signin ds c st req res =
        (Inl (createHttpError 400 ''Please provide email and password!''), st)) \<and>
   (\<forall>e p. req_body req ''email'' = Some e \<and> e \<noteq> [] \<and>
          req_body req ''password'' = Some p \<and> p \<noteq> [] \<longrightarrow>
      (findOne_email st e = None \<longrightarrow>
         signin ds c st req res = (Inl (createHttpError 400 ''Invalid email!''), st)) \<and>
      (\<forall>d h. findOne_email st e = Some d \<and> str_of d ''password'' = Some h \<longrightarrow>
         (\<not> bcrypt_compare ds p h \<longrightarrow>
            signin ds c st req res = (Inl (createHttpError 400 ''Wrong password!''), st)) \<and>
         (bcrypt_compare ds p h \<and> truthy (SECRET_KEY ds) \<longrightarrow>
            (\<exists>r. signin ds c st req res = (Inr r, st) \<and> res_status r = 201 \<and>
                 res_user r = Some (toJSON (select_plus_password d)))) \<and>
         (bcrypt_compare ds p h \<and> \<not> truthy (SECRET_KEY ds) \<longrightarrow>
            signin ds c st req res =
              (Inl (createHttpError 503 ''Cannot create access token!''), st))))"
  by (auto simp: signin_def findByCredentials_cases generateToken_def truthy_def
      res_json_def setCookie_def Let_def split: option.splits)

lemma update_document_empty: "update_document rest Map.empty = rest"
  by (simp add: update_document_def)

lemma updateMe_no_rotation:
  assumes "checkAuth req = Inr me"
    and "findByIdAndUpdate (call_now c) st (user_id me)
           (update_document (req_body req |` (- {''password'', ''newPassword''}))
              (req_body_set req)) = (Inr (Some u), st1)"
    and "\<not> (truthy (req_body req ''newPassword'') \<and> truthy (req_body req ''password''))"
  shows "updateMe checkAuth ds c st req res =
           (Inr (res_json res 200 ''Success'' (Some u)), st1)"
  using assms by (auto simp: updateMe_def Let_def)

lemma demo_findOne: "findOne_email demo_store ''ann@shop.io'' = Some demo_user"
  by (simp add: findOne_email_def demo_store_def demo_user_def cast_path_def
      trimmed_paths_def demo_trim)

lemma demo_str_password: "str_of demo_user ''password'' = Some ''#hunter2''"
  by (simp add: str_of_def demo_user_def)

lemma demo_signin:
  "\<exists>r. signin demo_deps demo_call demo_store (demo_req demo_login) demo_res = (Inr r, demo_store)"
proof -
  have "req_body (demo_req demo_login) ''email'' = Some ''ann@shop.io''"
    and "req_body (demo_req demo_login) ''password'' = Some ''hunter2''"
    by (simp_all add: demo_req_def demo_login_def)
  moreover have "bcrypt_compare demo_deps ''hunter2'' ''#hunter2''"
    and "truthy (SECRET_KEY demo_deps)"
    by (simp_all add: demo_deps_def toy_compare_def truthy_def)
  ultimately show ?thesis
    using signin_cases [of "demo_req demo_login" demo_deps demo_call demo_store demo_res]
      demo_findOne demo_str_password
    by fastforce
qed

lemma demo_register:
  "\<exists>r st'. register demo_deps demo_call [] (demo_req demo_body) demo_res = (Inr r, st')"
proof -
  from demo_create [of demo_deps] obtain u where
    "create demo_deps demo_call [] (req_body (demo_req demo_body)) = (Inr u, [u])"
    by (auto simp: demo_req_def)
  from register_after_create(1) [OF this, of demo_res] show ?thesis
    by (auto simp: demo_deps_def truthy_def)
qed

lemma demo_getMe:
  "\<exists>r st'. getMe demo_guard (\<lambda>_. []) demo_store (demo_req Map.empty) demo_res = (Inr r, st')"
  by (simp add: getMe_def demo_guard_def demo_req_def)

lemma demo_update_document:
  "update_document (req_body (demo_req b) |` A) (req_body_set (demo_req b)) = b |` A"
  by (simp add: update_document_def demo_req_def)

lemma demo_req_body: "req_body (demo_req b) = b"
  by (simp add: demo_req_def)

lemma demo_updateMe:
  "\<exists>r st'. updateMe demo_guard demo_deps demo_call demo_store (demo_req [''name'' \<mapsto> ''x''])
          demo_res = (Inr r, st')"
proof -
  let ?req = "demo_req [''name'' \<mapsto> ''x'']"
  let ?rest = "[''name'' \<mapsto> ''x''] |` (- {''password'', ''newPassword''})"
  have rest: "?rest ''email'' = None" "?rest ''_id'' = None"
    by (simp_all add: restrict_map_def)
  from findByIdAndUpdate_found [of demo_store "''u1''" demo_user ?rest "call_now demo_call"]
    demo_findById rest
  obtain u st1 where
    "findByIdAndUpdate (call_now demo_call) demo_store ''u1'' ?rest = (Inr (Some u), st1)"
    by simp
  then have fu: "findByIdAndUpdate (call_now demo_call) demo_store
      (user_id \<lparr>user_id = ''u1'', user_doc = select_default demo_user\<rparr>)
      (update_document (req_body ?req |` (- {''password'', ''newPassword''}))
         (req_body_set ?req)) = (Inr (Some u), st1)"
    by (simp add: demo_update_document)
  have "demo_guard ?req = Inr \<lparr>user_id = ''u1'', user_doc = select_default demo_user\<rparr>"
    and "\<not> (truthy (req_body ?req ''newPassword'') \<and> truthy (req_body ?req ''password''))"
    by (simp_all add: demo_guard_def demo_req_def truthy_def)
  with fu updateMe_no_rotation [of demo_guard ?req _ demo_call demo_store u st1 demo_deps demo_res]
  show ?thesis by blast
qed


lemma demo_findOne_unknown: "findOne_email demo_store ''bob@shop.io'' = None"
  by (simp add: findOne_email_def demo_store_def demo_user_def cast_path_def
      trimmed_paths_def trim_def is_space_def)


section \<open>Rotation and registration on the example inputs\<close>

lemma create_invalid:
  "validate (candidate c b) \<noteq> [] \<Longrightarrow>
   create ds c st b = (Inl (ValidationError (validate (candidate c b))), st)"
  by (auto simp: create_def save_def candidate_def split: list.splits)

lemma register_create_fails:
  "create ds c st (req_body req) = (Inl e, st1) \<Longrightarrow> register ds c st req res = (Inl e, st1)"
  by (simp add: register_def)

lemma updateMe_after_update:
  assumes "checkAuth req = Inr me"
    and "findByIdAndUpdate (call_now c) st (user_id me)
           (update_document (req_body req |` (- {''password'', ''newPassword''}))
              (req_body_set req)) = (Inr (Some u), st1)"
    and "req_body req ''password'' = Some pw" "pw \<noteq> []"
    and "req_body req ''newPassword'' = Some np" "np \<noteq> []"
  shows "updateMe checkAuth ds c st req res =
    (case updatePassword ds c st1 (user_id me) pw np of
       (Inl err, st2) \<Rightarrow> (Inl err, st2)
     | (Inr x, st2) \<Rightarrow> (Inr (res_json res 200 ''Success'' (Some u)), st2))"
  using assms by (simp add: updateMe_def truthy_def Let_def)

lemma doc_set_marks:
  "doc_fields this p \<noteq> Some (Str (cast_path p v)) \<Longrightarrow> p \<in> doc_modified (doc_set p v this)"
  by (simp add: doc_set_def Let_def)

lemma doc_set_modified_subset:
  "doc_modified (doc_set p v this) \<subseteq> insert p (doc_modified this)"
  by (auto simp: doc_set_def Let_def)

lemma updatePassword_rotates:
  assumes d: "findById st i = Some d" and h: "d ''password'' = Some (Str h)"
    and ok: "bcrypt_compare ds pw h"
    and valid: "validate ((select_plus_password d)
        (''password'' \<mapsto> Str (trim np), ''confirmPassword'' \<mapsto> Str (trim np))) = []"
    and changed: "trim np \<noteq> h"
  shows "\<exists>st'. updatePassword ds c st i pw np = (Inr (), st') \<and>
           stored_field st' i ''password'' =
             Some (Str (cast_path ''password''
               (bcrypt_hash ds (trim np) (genSalt 12 (call_entropy c)))))"
proof -
  let ?user = "\<lparr>doc_fields = select_plus_password d, doc_modified = {}, doc_isNew = False\<rparr>"
  let ?u2 = "doc_set ''confirmPassword'' np (doc_set ''password'' np ?user)"
  have fs: "doc_fields ?u2 = (select_plus_password d)
        (''password'' \<mapsto> Str (trim np), ''confirmPassword'' \<mapsto> Str (trim np))"
    by (simp add: doc_set_fields cast_path_def trimmed_paths_def)
  have sp: "select_plus_password d ''password'' = Some (Str h)"
    using h by (simp add: select_plus_password_def restrict_map_def)
  have "''password'' \<in> doc_modified (doc_set ''password'' np ?user)"
    using changed sp by (intro doc_set_marks) (simp add: cast_path_def trimmed_paths_def)
  with doc_set_modified [of "doc_set ''password'' np ?user" "''confirmPassword''" np]
  have md: "''password'' \<in> doc_modified ?u2" by blast
  have "doc_modified ?u2 \<subseteq> {''confirmPassword'', ''password''}"
    using doc_set_modified_subset [of "''confirmPassword''" np "doc_set ''password'' np ?user"]
      doc_set_modified_subset [of "''password''" np ?user]
    by auto
  then have em: "''email'' \<notin> doc_modified ?u2" by auto
  have idf: "doc_fields ?u2 ''_id'' = Some (Str i)"
    using findById_has_id [OF d]
    by (subst fs) (simp add: select_plus_password_def restrict_map_def has_id_def)
  have old: "\<not> doc_isNew ?u2" by (simp add: doc_set_isNew)
  from valid fs have v: "validate (doc_fields ?u2) = []" by simp
  from save_existing_succeeds [OF v old idf _ em, of st ds c] d
  obtain r st' where sv: "save ds c st ?u2 = (Inr r, st')" by auto
  from save_modified_stored(1) [OF sv idf md] fs
  have "stored_field st' i ''password'' =
      Some (Str (cast_path ''password'' (bcrypt_hash ds (trim np) (genSalt 12 (call_entropy c)))))"
    by (simp add: str_of_def)
  moreover from d sp ok sv
  have "updatePassword ds c st i pw np = (Inr (), st')"
    by (simp add: updatePassword_def comparePassword_def str_of_def Let_def)
  ultimately show ?thesis by blast
qed

lemma findById_after_update:
  assumes "findByIdAndUpdate now st i upd = (Inr (Some u), st1)"
  shows "\<exists>old. findById st i = Some old \<and>
           findById st1 i = Some (old ++ (cast_update upd ++ [''updatedAt'' \<mapsto> Date now]))"
proof -
  let ?ch = "cast_update upd ++ [''updatedAt'' \<mapsto> Date now]"
  from assms obtain old where old: "findById st i = Some old"
    and st1: "st1 = update_first (has_id i) (\<lambda>d. d ++ ?ch) st"
    by (auto simp: findByIdAndUpdate_def write_update_def Let_def split: option.splits if_splits)
  have keep: "has_id i (d ++ ?ch)" if "has_id i d" for d
    using that by (simp add: has_id_def map_add_def cast_update_no_id)
  from findById_update_first [of i "\<lambda>d. d ++ ?ch" st i, OF keep] old st1
  show ?thesis by simp
qed

lemma demo_short_name_invalid: "validate (candidate demo_call demo_short_name) \<noteq> []"
proof
  assume "validate (candidate demo_call demo_short_name) = []"
  then obtain n where n: "candidate demo_call demo_short_name ''name'' = Some (Str n)"
    and ok: "name_validator n"
    by (auto simp: validate_Nil validate_name_Nil)
  have "candidate demo_call demo_short_name ''name'' = Some (Str ''Ann'')"
    by (simp add: candidate_field schema_paths_def demo_short_name_def cast_path_def
        trimmed_paths_def trim_def is_space_def)
  with n have "n = ''Ann''" by simp
  moreover have "\<not> name_validator ''Ann''"
    by (simp add: name_validator_def nth_opt_def truthy_def)
  ultimately show False using ok by simp
qed

lemma demo_rest_rotate:
  "demo_rotate |` (- {''password'', ''newPassword''}) = Map.empty"
  by (rule ext) (simp add: demo_rotate_def restrict_map_def)

lemma demo_rotation:
  "\<exists>out st2. updateMe demo_guard demo_deps demo_call demo_store (demo_req demo_rotate) demo_res =
       (out, st2) \<and>
     stored_field st2 ''u1'' ''password'' = Some (Str ''#hunter3'')"
proof -
  let ?rest = "req_body (demo_req demo_rotate) |` (- {''password'', ''newPassword''})"
  have rest: "?rest = Map.empty"
    by (simp add: demo_req_def demo_rest_rotate)
  let ?ch = "cast_update Map.empty ++ [''updatedAt'' \<mapsto> Date 5000]"
  let ?d1 = "demo_user ++ ?ch"
  obtain u st1 where
    fu: "findByIdAndUpdate (call_now demo_call) demo_store ''u1'' ?rest = (Inr (Some u), st1)"
    using findByIdAndUpdate_found [OF demo_findById, of ?rest "call_now demo_call"] rest
    by simp
  from findById_after_update [OF fu] demo_findById rest
  have d1: "findById st1 ''u1'' = Some ?d1"
    by (simp add: demo_call_def)
  have h: "?d1 ''password'' = Some (Str ''#hunter2'')"
    by (simp add: map_add_def cast_update_def demo_user_def)
  have ok: "bcrypt_compare demo_deps ''hunter2'' ''#hunter2''"
    by (simp add: demo_deps_def toy_compare_def)
  have tr: "trim ''hunter3'' = ''hunter3''"
    by (simp add: trim_def is_space_def)
  have valid: "validate ((select_plus_password ?d1)
        (''password'' \<mapsto> Str (trim ''hunter3''),
         ''confirmPassword'' \<mapsto> Str (trim ''hunter3''))) = []"
    unfolding validate_Nil validate_name_Nil validate_email_Nil validate_password_Nil
      validate_confirmPassword_Nil validate_role_Nil
    by (simp add: tr select_plus_password_def restrict_map_def map_add_def cast_update_def
        demo_user_def demo_name_ok demo_email_ok UserRole_values_def del: rx_test.simps)
  from updatePassword_rotates [OF d1 h ok valid, of demo_call] tr
  obtain st2 where
    up: "updatePassword demo_deps demo_call st1 ''u1'' ''hunter2'' ''hunter3'' = (Inr (), st2)"
    and sf: "stored_field st2 ''u1'' ''password'' =
      Some (Str (cast_path ''password''
        (bcrypt_hash demo_deps ''hunter3'' (genSalt 12 (call_entropy demo_call)))))"
    by auto
  have "updateMe demo_guard demo_deps demo_call demo_store (demo_req demo_rotate) demo_res =
      (Inr (res_json demo_res 200 ''Success'' (Some u)), st2)"
    using updateMe_after_update [of demo_guard "demo_req demo_rotate" _ demo_call demo_store
        u st1 "''hunter2''" "''hunter3''" demo_deps demo_res] fu up
    unfolding demo_update_document
    by (simp add: demo_guard_def demo_req_def demo_rotate_def)
  with sf show ?thesis
    by (simp add: demo_deps_def demo_hash)
qed

lemma demo_wrong_update:
  "\<exists>u st1. findByIdAndUpdate (call_now demo_call) demo_store ''u1''
       (update_document (req_body (demo_req demo_rotate_wrong) |` (- {''password'', ''newPassword''}))
          (req_body_set (demo_req demo_rotate_wrong))) = (Inr (Some u), st1) \<and>
     stored_field st1 ''u1'' ''name'' = Some (Str ''Eve Lee'') \<and>
     stored_field st1 ''u1'' ''password'' = Some (Str ''#hunter2'')"
proof -
  let ?rest = "update_document (req_body (demo_req demo_rotate_wrong) |` (- {''password'', ''newPassword''}))
          (req_body_set (demo_req demo_rotate_wrong))"
  have rest: "?rest ''email'' = None" "?rest ''_id'' = None"
    by (simp_all add: update_document_def demo_req_def demo_rotate_wrong_def restrict_map_def)
  obtain u st1 where
    fu: "findByIdAndUpdate (call_now demo_call) demo_store ''u1'' ?rest = (Inr (Some u), st1)"
    using findByIdAndUpdate_found [of demo_store "''u1''" demo_user ?rest "call_now demo_call"]
      demo_findById rest
    by simp
  from findById_after_update [OF fu] demo_findById
  have d1: "findById st1 ''u1'' =
      Some (demo_user ++ (cast_update ?rest ++ [''updatedAt'' \<mapsto> Date (call_now demo_call)]))"
    by simp
  have nm: "stored_field st1 ''u1'' ''name'' = Some (Str ''Eve Lee'')"
    by (simp add: stored_field_def d1 map_add_def cast_update_def schema_paths_def
        update_document_def demo_req_def demo_rotate_wrong_def restrict_map_def cast_path_def
        trimmed_paths_def trim_def is_space_def)
  have pw: "stored_field st1 ''u1'' ''password'' = Some (Str ''#hunter2'')"
    by (simp add: stored_field_def d1 map_add_def cast_update_def schema_paths_def
        update_document_def demo_req_def demo_rotate_wrong_def restrict_map_def demo_user_def)
  from fu nm pw show ?thesis by blast
qed

lemma demo_wrong_facts:
  "demo_guard (demo_req demo_rotate_wrong) =
     Inr \<lparr>user_id = ''u1'', user_doc = select_default demo_user\<rparr>"
  "req_body (demo_req demo_rotate_wrong) ''password'' = Some ''nope12''"
  "req_body (demo_req demo_rotate_wrong) ''newPassword'' = Some ''hunter3''"
  "\<not> bcrypt_compare demo_deps ''nope12'' ''#hunter2''"
  by (simp_all add: demo_guard_def demo_req_def demo_rotate_wrong_def demo_deps_def
      toy_compare_def)

lemma demo_wrong_rotation:
  "\<exists>st1. updateMe demo_guard demo_deps demo_call demo_store (demo_req demo_rotate_wrong)
       demo_res = (Inl (createHttpError 400 ''Wrong password!''), st1) \<and>
     stored_field st1 ''u1'' ''name'' = Some (Str ''Eve Lee'') \<and>
     stored_field st1 ''u1'' ''password'' = Some (Str ''#hunter2'')"
proof -
  from demo_wrong_update obtain u st1 where
    fu: "findByIdAndUpdate (call_now demo_call) demo_store ''u1''
       (update_document (req_body (demo_req demo_rotate_wrong) |` (- {''password'', ''newPassword''}))
          (req_body_set (demo_req demo_rotate_wrong))) = (Inr (Some u), st1)"
    and nm: "stored_field st1 ''u1'' ''name'' = Some (Str ''Eve Lee'')"
    and pw: "stored_field st1 ''u1'' ''password'' = Some (Str ''#hunter2'')"
    by blast
  from updateMe_wrong_password [of demo_guard "demo_req demo_rotate_wrong"
      "\<lparr>user_id = ''u1'', user_doc = select_default demo_user\<rparr>" demo_call demo_store u st1
      "''nope12''" "''hunter3''" "''#hunter2''" demo_deps demo_res] demo_wrong_facts fu pw
  have "updateMe demo_guard demo_deps demo_call demo_store (demo_req demo_rotate_wrong)
       demo_res = (Inl (createHttpError 400 ''Wrong password!''), st1)"
    by simp
  with nm pw show ?thesis by blast
qed

lemma demo_set_overwrite:
  "\<exists>r st1. updateMe demo_guard demo_deps demo_call demo_store demo_set_password demo_res =
       (Inr r, st1) \<and> res_status r = 200 \<and>
     stored_field st1 ''u1'' ''password'' = Some (Str ''pwned1'')"
proof -
  let ?upd = "update_document (req_body demo_set_password |` (- {''password'', ''newPassword''}))
          (req_body_set demo_set_password)"
  have upd: "?upd ''email'' = None" "?upd ''_id'' = None"
    by (simp_all add: update_document_def demo_set_password_def restrict_map_def)
  obtain u st1 where
    fu: "findByIdAndUpdate (call_now demo_call) demo_store ''u1'' ?upd = (Inr (Some u), st1)"
    using findByIdAndUpdate_found [of demo_store "''u1''" demo_user ?upd "call_now demo_call"]
      demo_findById upd
    by simp
  from findById_after_update [OF fu] demo_findById
  have d1: "findById st1 ''u1'' =
      Some (demo_user ++ (cast_update ?upd ++ [''updatedAt'' \<mapsto> Date (call_now demo_call)]))"
    by simp
  have pw: "stored_field st1 ''u1'' ''password'' = Some (Str ''pwned1'')"
    by (simp add: stored_field_def d1 map_add_def cast_update_def schema_paths_def
        update_document_def demo_set_password_def restrict_map_def cast_path_def
        trimmed_paths_def trim_def is_space_def)
  have "demo_guard demo_set_password =
      Inr \<lparr>user_id = ''u1'', user_doc = select_default demo_user\<rparr>"
    and "\<not> (truthy (req_body demo_set_password ''newPassword'') \<and>
          truthy (req_body demo_set_password ''password''))"
    by (simp_all add: demo_guard_def demo_set_password_def truthy_def)
  with fu updateMe_no_rotation [of demo_guard demo_set_password
      "\<lparr>user_id = ''u1'', user_doc = select_default demo_user\<rparr>" demo_call demo_store u st1
      demo_deps demo_res]
  have "updateMe demo_guard demo_deps demo_call demo_store demo_set_password demo_res =
      (Inr (res_json demo_res 200 ''Success'' (Some u)), st1)"
    by simp
  with pw show ?thesis by (simp add: res_json_def)
qed

lemma demo_cast_error:
  "findByIdAndUpdate (call_now demo_call) demo_store ''u1''
     (update_document (req_body (demo_req demo_with_id) |` (- {''password'', ''newPassword''}))
        (req_body_set (demo_req demo_with_id))) =
     (Inl (cast_error ''zzz'' ''_id''), demo_store)"
  by (simp add: findByIdAndUpdate_def update_document_def demo_req_def demo_with_id_def
      restrict_map_def is_objectid_def)

lemma demo_register_nokey:
  "\<exists>u. register demo_deps_nokey demo_call [] (demo_req demo_body) demo_res =
         (Inl (createHttpError 503 ''Cannot create access token!''), [u])"
proof -
  from demo_create [of demo_deps_nokey] obtain u where
    "create demo_deps_nokey demo_call [] (req_body (demo_req demo_body)) = (Inr u, [u])"
    by (auto simp: demo_req_def)
  from register_after_create(2) [OF this, of demo_res] show ?thesis
    by (auto simp: demo_deps_nokey_def truthy_def)
qed


lemma validate_entry_paths:
  "(p, m) \<in> set (validate_name d) \<Longrightarrow> p = ''name''"
  "(p, m) \<in> set (validate_email d) \<Longrightarrow> p = ''email''"
  "(p, m) \<in> set (validate_password d) \<Longrightarrow> p = ''password''"
  "(p, m) \<in> set (validate_confirmPassword d) \<Longrightarrow> p = ''confirmPassword''"
  "(p, m) \<in> set (validate_role d) \<Longrightarrow> p = ''role''"
  by (auto simp: validate_name_def validate_email_def validate_password_def
      validate_confirmPassword_def validate_role_def split: option.splits if_splits)

lemma validate_has_entry:
  "(\<exists>m. (''name'', m) \<in> set (validate d)) \<longleftrightarrow> validate_name d \<noteq> []"
  "(\<exists>m. (''email'', m) \<in> set (validate d)) \<longleftrightarrow> validate_email d \<noteq> []"
  "(\<exists>m. (''password'', m) \<in> set (validate d)) \<longleftrightarrow> validate_password d \<noteq> []"
  "(\<exists>m. (''role'', m) \<in> set (validate d)) \<longleftrightarrow> validate_role d \<noteq> []"
proof -
  have nm: "validate_name d \<noteq> [] \<Longrightarrow> \<exists>m. (''name'', m) \<in> set (validate_name d)"
    by (auto simp: validate_name_def split: option.splits if_splits)
  have em: "validate_email d \<noteq> [] \<Longrightarrow> \<exists>m. (''email'', m) \<in> set (validate_email d)"
    by (auto simp: validate_email_def split: option.splits if_splits)
  have pw: "validate_password d \<noteq> [] \<Longrightarrow> \<exists>m. (''password'', m) \<in> set (validate_password d)"
    by (auto simp: validate_password_def split: option.splits if_splits)
  have ro: "validate_role d \<noteq> [] \<Longrightarrow> \<exists>m. (''role'', m) \<in> set (validate_role d)"
    by (auto simp: validate_role_def split: option.splits if_splits)
  show "(\<exists>m. (''name'', m) \<in> set (validate d)) \<longleftrightarrow> validate_name d \<noteq> []"
    using nm validate_entry_paths [of "''name''" _ d] by (fastforce simp: validate_def)
  show "(\<exists>m. (''email'', m) \<in> set (validate d)) \<longleftrightarrow> validate_email d \<noteq> []"
    using em validate_entry_paths [of "''email''" _ d] by (fastforce simp: validate_def)
  show "(\<exists>m. (''password'', m) \<in> set (validate d)) \<longleftrightarrow> validate_password d \<noteq> []"
    using pw validate_entry_paths [of "''password''" _ d] by (fastforce simp: validate_def)
  show "(\<exists>m. (''role'', m) \<in> set (validate d)) \<longleftrightarrow> validate_role d \<noteq> []"
    using ro validate_entry_paths [of "''role''" _ d] by (fastforce simp: validate_def)
qed

lemma email_rx_nonempty: "rx_test email_rx e \<Longrightarrow> e \<noteq> []"
  by (auto simp: email_rx_def rx_plus_def rx_opt_def Let_def)

lemma candidate_role: "\<exists>r. candidate c b ''role'' = Some (Str r)"
  using new_document_role by (simp add: candidate_def)

section \<open>Creation on the example inputs\<close>

lemma create_duplicate_email:
  assumes v: "validate (candidate c b) = []"
    and fresh: "\<forall>x \<in> set st. x ''_id'' \<noteq> Some (Str (call_oid c))"
    and dup: "\<exists>x \<in> set st. x ''email'' = candidate c b ''email''"
  shows "create ds c st b = (Inl (duplicate_key_error ''email''), st)"
proof -
  let ?nd = "new_document (call_oid c) b"
  from v have "validate_password (doc_fields ?nd) = []"
    by (simp add: validate_Nil candidate_def)
  from pre_save_total [OF this] obtain this' where
    ps: "pre_save ds (call_entropy c) ?nd = Inr this'" by blast
  from pre_save_keeps [OF ps] new_document_isNew new_document_id
  have k: "doc_isNew this'" "doc_fields this' ''_id'' = Some (Str (call_oid c))"
    "doc_fields this' ''email'' = candidate c b ''email''"
    by (simp_all add: candidate_def)
  from fresh dup k have "\<not> list_ex (\<lambda>x. x ''_id'' = doc_fields this' ''_id'') st"
    and "email_taken st (doc_fields this' ''_id'') (doc_fields this' ''email'')"
    by (auto simp: list_ex_iff email_taken_def)
  then have "insertOne (call_now c) st (doc_fields this') = (Inl (duplicate_key_error ''email''), st)"
    by (simp add: insertOne_def Let_def)
  with v ps k(1) show ?thesis
    by (simp add: create_def save_def candidate_def)
qed

lemma create_Inr_fields:
  assumes "create ds c st b = (Inr r, st')"
  shows "r ''name'' = candidate c b ''name''" "r ''email'' = candidate c b ''email''"
    "r ''role'' = candidate c b ''role''"
  using create_Inr(3) [OF assms] by auto


lemma demo_body_candidate:
  "candidate c demo_body ''name'' = Some (Str ''Ann Lee'')"
  "candidate c demo_body ''email'' = Some (Str ''ann@shop.io'')"
  "candidate c demo_body ''password'' = Some (Str ''hunter2'')"
  "candidate c demo_body ''confirmPassword'' = Some (Str ''hunter2'')"
  "candidate c demo_body ''role'' = Some (Str ''user'')"
  by (simp_all add: candidate_field schema_paths_def demo_body_def cast_path_def
      trimmed_paths_def demo_trim)

lemma demo_body_valid: "validate (candidate c demo_body) = []"
  unfolding validate_Nil validate_name_Nil validate_email_Nil validate_password_Nil
    validate_confirmPassword_Nil validate_role_Nil
  by (simp add: demo_body_candidate demo_name_ok demo_email_ok UserRole_values_def
      del: rx_test.simps)

lemma demo_duplicate:
  "create demo_deps demo_call2 demo_store demo_body =
     (Inl (duplicate_key_error ''email''), demo_store)"
  by (rule create_duplicate_email [OF demo_body_valid])
     (simp_all add: demo_store_def demo_user_def demo_call2_def demo_body_candidate)

lemma demo_short_candidate:
  "candidate demo_call demo_short_name ''name'' = Some (Str ''Ann'')"
  by (simp add: candidate_field schema_paths_def demo_short_name_def cast_path_def
      trimmed_paths_def trim_def is_space_def)

lemma demo_one_word: "\<not> name_validator ''Ann''" "\<not> name_validator ''x''"
  by (simp_all add: name_validator_def nth_opt_def truthy_def)

lemma demo_update_short_name:
  "\<exists>r st1. updateMe demo_guard demo_deps demo_call demo_store (demo_req [''name'' \<mapsto> ''x''])
       demo_res = (Inr r, st1) \<and> res_status r = 200 \<and>
     stored_field st1 ''u1'' ''name'' = Some (Str ''x'')"
proof -
  let ?req = "demo_req [''name'' \<mapsto> ''x'']"
  let ?rest = "req_body ?req |` (- {''password'', ''newPassword''})"
  let ?ch = "cast_update ?rest ++ [''updatedAt'' \<mapsto> Date (call_now demo_call)]"
  have rest: "?rest ''email'' = None" "?rest ''_id'' = None"
    by (simp_all add: demo_req_def restrict_map_def)
  from findByIdAndUpdate_found [of demo_store "''u1''" demo_user ?rest "call_now demo_call"]
    demo_findById rest
  obtain u st1 where
    fu: "findByIdAndUpdate (call_now demo_call) demo_store ''u1'' ?rest = (Inr (Some u), st1)"
    and st1: "st1 = update_first (has_id ''u1'') (\<lambda>d. d ++ ?ch) demo_store"
    by simp
  from findById_after_update [OF fu] demo_findById
  have "findById st1 ''u1'' = Some (demo_user ++ ?ch)" by simp
  then have nm: "stored_field st1 ''u1'' ''name'' = Some (Str ''x'')"
    by (simp add: stored_field_def map_add_def cast_update_def schema_paths_def
        demo_req_def restrict_map_def cast_path_def trimmed_paths_def trim_def is_space_def)
  from fu have fu': "findByIdAndUpdate (call_now demo_call) demo_store
      (user_id \<lparr>user_id = ''u1'', user_doc = select_default demo_user\<rparr>)
      (update_document ?rest (req_body_set ?req)) = (Inr (Some u), st1)"
    by (simp add: update_document_def demo_req_def)
  have "demo_guard ?req = Inr \<lparr>user_id = ''u1'', user_doc = select_default demo_user\<rparr>"
    and "\<not> (truthy (req_body ?req ''newPassword'') \<and> truthy (req_body ?req ''password''))"
    by (simp_all add: demo_guard_def demo_req_def truthy_def)
  with fu' updateMe_no_rotation [of demo_guard ?req _ demo_call demo_store u st1 demo_deps demo_res]
  have "updateMe demo_guard demo_deps demo_call demo_store ?req demo_res =
      (Inr (res_json demo_res 200 ''Success'' (Some u)), st1)" by blast
  with nm show ?thesis by (simp add: res_json_def)
qed


section \<open>The boundary wrapper's rendering\<close>

text \<open>
  C7. Every error reaching the boundary wrapper is rendered as follows: an error named
  JsonWebTokenError as status 401 with "Invalid token!"; an error named
  TokenExpiredError as status 401 with "Token has been expired!"; any other error at its
  own status code and message, with 500 where the status is unset (undefined or 0) and
  "Something went wrong!" where the message is unset (empty).
\<close>

theorem catchAsync_renders:
  "(err_name e = ''JsonWebTokenError'' \<longrightarrow>
      res_status (catchAsync (Inl e)) = 401 \<and>
      res_message (catchAsync (Inl e)) = ''Invalid token!'') \<and>
   (err_name e = ''TokenExpiredError'' \<longrightarrow>
      res_status (catchAsync (Inl e)) = 401 \<and>
      res_message (catchAsync (Inl e)) = ''Token has been expired!'') \<and>
   (err_name e \<noteq> ''JsonWebTokenError'' \<and> err_name e \<noteq> ''TokenExpiredError'' \<longrightarrow>
      res_status (catchAsync (Inl e)) =
        (case err_statusCode e of None \<Rightarrow> 500 | Some n \<Rightarrow> if n = 0 then 500 else n) \<and>
      res_message (catchAsync (Inl e)) =
        (if err_message e = [] then ''Something went wrong!'' else err_message e))"
  by (simp add: catchAsync_def createHttpError_def http_error_name_def
      or_status_def or_string_def Let_def)

theorem catchAsync_renders_witness:
  "res_status (catchAsync (Inl \<lparr>err_name = ''JsonWebTokenError'', err_statusCode = None,
      err_message = ''jwt malformed'', err_errors = []\<rparr>)) = 401 \<and>
   res_message (catchAsync (Inl \<lparr>err_name = ''JsonWebTokenError'', err_statusCode = None,
      err_message = ''jwt malformed'', err_errors = []\<rparr>)) = ''Invalid token!'' \<and>
   res_status (catchAsync (Inl \<lparr>err_name = ''TokenExpiredError'', err_statusCode = None,
      err_message = ''jwt expired'', err_errors = []\<rparr>)) = 401 \<and>
   res_message (catchAsync (Inl \<lparr>err_name = ''TokenExpiredError'', err_statusCode = None,
      err_message = ''jwt expired'', err_errors = []\<rparr>)) = ''Token has been expired!'' \<and>
   res_status (catchAsync (Inl (createHttpError 405 ''Method not allowed!''))) = 405 \<and>
   res_message (catchAsync (Inl (createHttpError 405 ''Method not allowed!''))) =
     ''Method not allowed!'' \<and>
   res_status (catchAsync (Inl \<lparr>err_name = ''Error'', err_statusCode = None,
      err_message = [], err_errors = []\<rparr>)) = 500 \<and>
   res_message (catchAsync (Inl \<lparr>err_name = ''Error'', err_statusCode = None,
      err_message = [], err_errors = []\<rparr>)) = ''Something went wrong!''"
  using
    catchAsync_renders [of "\<lparr>err_name = ''JsonWebTokenError'', err_statusCode = None,
      err_message = ''jwt malformed'', err_errors = []\<rparr>"]
    catchAsync_renders [of "\<lparr>err_name = ''TokenExpiredError'', err_statusCode = None,
      err_message = ''jwt expired'', err_errors = []\<rparr>"]
    catchAsync_renders [of "createHttpError 405 ''Method not allowed!''"]
    catchAsync_renders [of "\<lparr>err_name = ''Error'', err_statusCode = None,
      err_message = [], err_errors = []\<rparr>"]
  by (simp add: createHttpError_def http_error_name_def)

section \<open>Hashing on save\<close>



section \<open>The confirmation field on save\<close>

text \<open>
  C10. Whenever a document is saved with a modified password (a registration or a
  password rotation), the confirmPassword field of the stored record is the empty string:
  the plaintext confirmation is never stored next to the hash.
\<close>

theorem save_clears_confirmPassword:
  assumes "save ds c st this = (Inr r, st')"
    and "doc_fields this ''_id'' = Some (Str i)"
    and "''password'' \<in> doc_modified this"
  shows "stored_field st' i ''confirmPassword'' = Some (Str [])"
  using save_modified_stored(2) [OF assms] .

theorem save_clears_confirmPassword_witness:
  "(\<exists>r st'. save demo_deps demo_call [] (new_document ''u1'' demo_body) = (Inr r, st') \<and>
      stored_field st' ''u1'' ''confirmPassword'' = Some (Str [])) \<and>
   (\<exists>r st'. save demo_deps demo_call demo_store demo_rotating = (Inr r, st') \<and>
      stored_field st' ''u1'' ''confirmPassword'' = Some (Str []))"
proof
  from demo_create [of demo_deps] obtain r st' where
    sv: "save demo_deps demo_call [] (new_document ''u1'' demo_body) = (Inr r, st')"
    by (auto simp: create_def demo_call_def)
  from save_clears_confirmPassword [OF sv new_document_id demo_new_modified] sv
  show "\<exists>r st'. save demo_deps demo_call [] (new_document ''u1'' demo_body) = (Inr r, st') \<and>
      stored_field st' ''u1'' ''confirmPassword'' = Some (Str [])"
    by blast
next
  have idf: "doc_fields demo_rotating ''_id'' = Some (Str ''u1'')"
    by (simp add: demo_rotating_def demo_user_def)
  from save_existing_succeeds [OF demo_rotating_valid _ idf, of demo_store demo_deps demo_call]
  obtain r st' where sv: "save demo_deps demo_call demo_store demo_rotating = (Inr r, st')"
    by (auto simp: demo_rotating_def demo_findById)
  have "''password'' \<in> doc_modified demo_rotating"
    by (simp add: demo_rotating_def)
  from save_clears_confirmPassword [OF sv idf this] sv
  show "\<exists>r st'. save demo_deps demo_call demo_store demo_rotating = (Inr r, st') \<and>
      stored_field st' ''u1'' ''confirmPassword'' = Some (Str [])"
    by blast
qed

section \<open>What a response shows of a user\<close>

text \<open>
  C1. Every serialized representation of a user record excludes the password hash and
  the confirmation field: the toJSON transform removes both keys from any document, and
  the user that a successful register, sign-in, profile lookup or profile update puts in
  its response has neither; in particular the record returned by a successful register
  has no password field.
\<close>

theorem serialized_user_excludes_credentials:
  "toJSON d ''password'' = None \<and> toJSON d ''confirmPassword'' = None \<and>
   (register ds c st req res = (Inr r, st') \<longrightarrow>
      (\<exists>u. res_user r = Some u \<and> u ''password'' = None \<and> u ''confirmPassword'' = None)) \<and>
   (signin ds c st req res = (Inr r, st') \<longrightarrow>
      (\<exists>u. res_user r = Some u \<and> u ''password'' = None \<and> u ''confirmPassword'' = None)) \<and>
   (getMe checkAuth orders_of st req res = (Inr r, st') \<longrightarrow>
      (\<exists>u. res_user r = Some u \<and> u ''password'' = None \<and> u ''confirmPassword'' = None)) \<and>
   (updateMe checkAuth ds c st req res = (Inr r, st') \<longrightarrow>
      (\<exists>u. res_user r = Some u \<and> u ''password'' = None \<and> u ''confirmPassword'' = None))"
  using transform_hides register_user signin_user getMe_user updateMe_user
  by (metis toJSON_def)

theorem serialized_user_excludes_credentials_witness:
  "demo_user ''password'' = Some (Str ''#hunter2'') \<and>
   toJSON demo_user ''password'' = None \<and> toJSON demo_user ''confirmPassword'' = None \<and>
   (\<exists>r st'. register demo_deps demo_call [] (demo_req demo_body) demo_res = (Inr r, st') \<and>
      (\<exists>u. res_user r = Some u \<and> u ''password'' = None \<and> u ''confirmPassword'' = None)) \<and>
   (\<exists>r st'. signin demo_deps demo_call demo_store (demo_req demo_login) demo_res = (Inr r, st') \<and>
      (\<exists>u. res_user r = Some u \<and> u ''password'' = None \<and> u ''confirmPassword'' = None)) \<and>
   (\<exists>r st'. getMe demo_guard (\<lambda>_. []) demo_store (demo_req Map.empty) demo_res = (Inr r, st') \<and>
      (\<exists>u. res_user r = Some u \<and> u ''password'' = None \<and> u ''confirmPassword'' = None)) \<and>
   (\<exists>r st'. updateMe demo_guard demo_deps demo_call demo_store (demo_req [''name'' \<mapsto> ''x''])
        demo_res = (Inr r, st') \<and>
      (\<exists>u. res_user r = Some u \<and> u ''password'' = None \<and> u ''confirmPassword'' = None))"
proof (intro conjI)
  show "demo_user ''password'' = Some (Str ''#hunter2'')"
    by (simp add: demo_user_def)
  show "toJSON demo_user ''password'' = None" "toJSON demo_user ''confirmPassword'' = None"
    using serialized_user_excludes_credentials [of demo_user] by simp_all
next
  from demo_register obtain r st' where
    ev: "register demo_deps demo_call [] (demo_req demo_body) demo_res = (Inr r, st')"
    by blast
  from serialized_user_excludes_credentials [where ds = demo_deps and c = demo_call
      and st = "[]" and req = "demo_req demo_body" and res = demo_res and r = r and st' = st'] ev
  show "\<exists>r st'. register demo_deps demo_call [] (demo_req demo_body) demo_res = (Inr r, st') \<and>
      (\<exists>u. res_user r = Some u \<and> u ''password'' = None \<and> u ''confirmPassword'' = None)"
    by blast
next
  from demo_signin obtain r where
    ev: "signin demo_deps demo_call demo_store (demo_req demo_login) demo_res = (Inr r, demo_store)"
    by blast
  from serialized_user_excludes_credentials [where ds = demo_deps and c = demo_call
      and st = demo_store and req = "demo_req demo_login" and res = demo_res and r = r
      and st' = demo_store] ev
  show "\<exists>r st'. signin demo_deps demo_call demo_store (demo_req demo_login) demo_res = (Inr r, st') \<and>
      (\<exists>u. res_user r = Some u \<and> u ''password'' = None \<and> u ''confirmPassword'' = None)"
    by blast
next
  from demo_getMe obtain r st' where
    ev: "getMe demo_guard (\<lambda>_. []) demo_store (demo_req Map.empty) demo_res = (Inr r, st')"
    by blast
  from serialized_user_excludes_credentials [where checkAuth = demo_guard
      and orders_of = "\<lambda>_. []" and st = demo_store and req = "demo_req Map.empty"
      and res = demo_res and r = r and st' = st'] ev
  show "\<exists>r st'. getMe demo_guard (\<lambda>_. []) demo_store (demo_req Map.empty) demo_res = (Inr r, st') \<and>
      (\<exists>u. res_user r = Some u \<and> u ''password'' = None \<and> u ''confirmPassword'' = None)"
    by blast
next
  from demo_updateMe obtain r st' where
    ev: "updateMe demo_guard demo_deps demo_call demo_store (demo_req [''name'' \<mapsto> ''x''])
          demo_res = (Inr r, st')"
    by blast
  from serialized_user_excludes_credentials [where checkAuth = demo_guard and ds = demo_deps
      and c = demo_call and st = demo_store and req = "demo_req [''name'' \<mapsto> ''x'']"
      and res = demo_res and r = r and st' = st'] ev
  show "\<exists>r st'. updateMe demo_guard demo_deps demo_call demo_store (demo_req [''name'' \<mapsto> ''x''])
        demo_res = (Inr r, st') \<and>
      (\<exists>u. res_user r = Some u \<and> u ''password'' = None \<and> u ''confirmPassword'' = None)"
    by blast
qed

section \<open>Sign-in\<close>

text \<open>
  C3 (as amended). A sign-in whose email or password is absent or empty fails with status
  400 and "Please provide email and password!". Otherwise, if no record has the given
  email it fails with 400 "Invalid email!"; if the record exists and the password does
  not verify against its stored hash it fails with 400 "Wrong password!"; if the password
  verifies and a signing secret is configured it succeeds with status 201 and returns the
  matching user's record; if the password verifies and no signing secret is configured
  it fails with status 503.
\<close>

theorem signin_outcomes:
  "(\<not> truthy (req_body req ''email'') \<or> \<not> truthy (req_body req ''password'') \<longrightarrow>
      signin ds c st req res =
        (Inl (createHttpError 400 ''Please provide email and password!''), st)) \<and>
   (\<forall>e p. req_body req ''email'' = Some e \<and> e \<noteq> [] \<and>
          req_body req ''password'' = Some p \<and> p \<noteq> [] \<longrightarrow>
      (findOne_email st e = None \<longrightarrow>
         signin ds c st req res = (Inl (createHttpError 400 ''Invalid email!''), st)) \<and>
      (\<forall>d h. findOne_email st e = Some d \<and> str_of d ''password'' = Some h \<longrightarrow>
         d ''email'' = Some (Str (cast_path ''email'' e)) \<and>
         (\<not> bcrypt_compare ds p h \<longrightarrow>
            signin ds c st req res = (Inl (createHttpError 400 ''Wrong password!''), st)) \<and>
         (bcrypt_compare ds p h \<and> truthy (SECRET_KEY ds) \<longrightarrow>
            (\<exists>r. signin ds c st req res = (Inr r, st) \<and> res_status r = 201 \<and>
                 res_user r = Some (toJSON (select_plus_password d)))) \<and>
         (bcrypt_compare ds p h \<and> \<not> truthy (SECRET_KEY ds) \<longrightarrow>
            signin ds c st req res =
              (Inl (createHttpError 503 ''Cannot create access token!''), st))))"
  using signin_cases [of req ds c st res] findOne_email_Some [of st]
  by blast

text \<open>
  The claim as first stated, that a sign-in succeeds whenever none of the three 400
  cases applies, fails where no signing secret is configured: the credentials below are
  present and correct and the call fails with 503.
\<close>

theorem signin_without_secret_counterexample:
  "req_body (demo_req demo_login) ''email'' = Some ''ann@shop.io'' \<and>
   req_body (demo_req demo_login) ''password'' = Some ''hunter2'' \<and>
   findOne_email demo_store ''ann@shop.io'' = Some demo_user \<and>
   str_of demo_user ''password'' = Some ''#hunter2'' \<and>
   bcrypt_compare demo_deps_nokey ''hunter2'' ''#hunter2'' \<and>
   signin demo_deps_nokey demo_call demo_store (demo_req demo_login) demo_res =
     (Inl (createHttpError 503 ''Cannot create access token!''), demo_store)"
proof -
  have b: "req_body (demo_req demo_login) ''email'' = Some ''ann@shop.io''"
    "req_body (demo_req demo_login) ''password'' = Some ''hunter2''"
    by (simp_all add: demo_req_def demo_login_def)
  have k: "bcrypt_compare demo_deps_nokey ''hunter2'' ''#hunter2''"
    "\<not> truthy (SECRET_KEY demo_deps_nokey)"
    by (simp_all add: demo_deps_nokey_def demo_deps_def toy_compare_def truthy_def)
  from b k demo_findOne demo_str_password
    signin_cases [of "demo_req demo_login" demo_deps_nokey demo_call demo_store demo_res]
  show ?thesis by fastforce
qed

theorem signin_outcomes_witness:
  "signin demo_deps demo_call demo_store (demo_req [''email'' \<mapsto> ''ann@shop.io'']) demo_res =
     (Inl (createHttpError 400 ''Please provide email and password!''), demo_store) \<and>
   signin demo_deps demo_call demo_store (demo_req demo_login_unknown) demo_res =
     (Inl (createHttpError 400 ''Invalid email!''), demo_store) \<and>
   signin demo_deps demo_call demo_store (demo_req demo_login_wrong) demo_res =
     (Inl (createHttpError 400 ''Wrong password!''), demo_store) \<and>
   (\<exists>r. signin demo_deps demo_call demo_store (demo_req demo_login) demo_res =
          (Inr r, demo_store) \<and> res_status r = 201 \<and>
        res_user r = Some (toJSON (select_plus_password demo_user))) \<and>
   signin demo_deps_nokey demo_call demo_store (demo_req demo_login) demo_res =
     (Inl (createHttpError 503 ''Cannot create access token!''), demo_store)"
proof (intro conjI)
  show "signin demo_deps demo_call demo_store (demo_req [''email'' \<mapsto> ''ann@shop.io'']) demo_res =
     (Inl (createHttpError 400 ''Please provide email and password!''), demo_store)"
    using signin_outcomes [of "demo_req [''email'' \<mapsto> ''ann@shop.io'']" demo_deps demo_call
        demo_store demo_res]
    by (simp add: demo_req_def truthy_def)
  have k: "truthy (SECRET_KEY demo_deps)" "\<not> truthy (SECRET_KEY demo_deps_nokey)"
    "bcrypt_compare demo_deps ''hunter2'' ''#hunter2''"
    "bcrypt_compare demo_deps_nokey ''hunter2'' ''#hunter2''"
    "\<not> bcrypt_compare demo_deps ''nope12'' ''#hunter2''"
    by (simp_all add: demo_deps_nokey_def demo_deps_def toy_compare_def truthy_def)
  have u: "req_body (demo_req demo_login_unknown) ''email'' = Some ''bob@shop.io''"
    "req_body (demo_req demo_login_unknown) ''password'' = Some ''hunter2''"
    by (simp_all add: demo_req_def demo_login_unknown_def)
  from u demo_findOne_unknown
    signin_outcomes [of "demo_req demo_login_unknown" demo_deps demo_call demo_store demo_res]
  show "signin demo_deps demo_call demo_store (demo_req demo_login_unknown) demo_res =
     (Inl (createHttpError 400 ''Invalid email!''), demo_store)"
    by fastforce
  have w: "req_body (demo_req demo_login_wrong) ''email'' = Some ''ann@shop.io''"
    "req_body (demo_req demo_login_wrong) ''password'' = Some ''nope12''"
    by (simp_all add: demo_req_def demo_login_wrong_def)
  from w k demo_findOne demo_str_password
    signin_outcomes [of "demo_req demo_login_wrong" demo_deps demo_call demo_store demo_res]
  show "signin demo_deps demo_call demo_store (demo_req demo_login_wrong) demo_res =
     (Inl (createHttpError 400 ''Wrong password!''), demo_store)"
    by fastforce
  have b: "req_body (demo_req demo_login) ''email'' = Some ''ann@shop.io''"
    "req_body (demo_req demo_login) ''password'' = Some ''hunter2''"
    by (simp_all add: demo_req_def demo_login_def)
  from b k demo_findOne demo_str_password
    signin_outcomes [of "demo_req demo_login" demo_deps demo_call demo_store demo_res]
  show "\<exists>r. signin demo_deps demo_call demo_store (demo_req demo_login) demo_res =
          (Inr r, demo_store) \<and> res_status r = 201 \<and>
        res_user r = Some (toJSON (select_plus_password demo_user))"
    by fastforce
  from b k demo_findOne demo_str_password
    signin_outcomes [of "demo_req demo_login" demo_deps_nokey demo_call demo_store demo_res]
  show "signin demo_deps_nokey demo_call demo_store (demo_req demo_login) demo_res =
     (Inl (createHttpError 503 ''Cannot create access token!''), demo_store)"
    by fastforce
qed

section \<open>Token issuance\<close>

text \<open>
  C5. Token issuance signs exactly the payload with the user's id under the key "id",
  with the configured secret, and an expiry of the current time plus DAY_EXPIRE days;
  if the signing secret is missing or empty it fails with status 503 and produces no
  token.
\<close>

theorem generateToken_issues:
  "(SECRET_KEY ds = None \<or> SECRET_KEY ds = Some [] \<longrightarrow>
      generateToken ds now this = Inl (createHttpError 503 ''Cannot create access token!'') \<and>
      err_statusCode (createHttpError 503 ''Cannot create access token!'') = Some 503) \<and>
   (\<forall>key. SECRET_KEY ds = Some key \<and> key \<noteq> [] \<longrightarrow>
      generateToken ds now this =
        Inr \<lparr>tok_payload = Map.empty(''id'' := this ''_id''), tok_key = key,
             tok_iat = now div 1000,
             tok_exp = now div 1000 + DAY_EXPIRE ds * 86400\<rparr>)"
  by (auto simp: generateToken_def truthy_def jwt_sign_def createHttpError_def)

theorem generateToken_issues_witness:
  "generateToken demo_deps 5000 demo_user =
     Inr \<lparr>tok_payload = [''id'' \<mapsto> Str ''u1''], tok_key = ''s3cr3t'',
          tok_iat = 5, tok_exp = 604805\<rparr> \<and>
   generateToken demo_deps_nokey 5000 demo_user =
     Inl (createHttpError 503 ''Cannot create access token!'') \<and>
   generateToken (demo_deps\<lparr>SECRET_KEY := Some []\<rparr>) 5000 demo_user =
     Inl (createHttpError 503 ''Cannot create access token!'')"
  using generateToken_issues [of demo_deps 5000 demo_user]
    generateToken_issues [of demo_deps_nokey 5000 demo_user]
    generateToken_issues [of "demo_deps\<lparr>SECRET_KEY := Some []\<rparr>" 5000 demo_user]
  by (simp add: demo_deps_def demo_deps_nokey_def demo_user_def)

section \<open>Lookups of an unknown identifier\<close>

text \<open>
  C8. The claim is that every operation looking a user up by id fails with status 404
  when the id resolves to no record. The profile update does; the orders lookup and the
  password rotation answer 400 (the rotation with the message "Invalid email!"), as
  evaluated here on an empty collection.
\<close>

theorem unknown_id_lookup_status:
  "findMyOrders (\<lambda>_. []) [] ''u1'' = Inl (createHttpError 400 ''No user with this id: u1'') \<and>
   updatePassword demo_deps demo_call [] ''u1'' ''hunter2'' ''hunter3'' =
     (Inl (createHttpError 400 ''Invalid email!''), []) \<and>
   res_status (catchAsync (fst (getMe demo_guard (\<lambda>_. []) []
     \<lparr>req_body = Map.empty, req_body_set = Map.empty,
      req_query = [''orders'' \<mapsto> ''true'']\<rparr> demo_res))) = 400 \<and>
   res_status (catchAsync (fst (updateMe demo_guard demo_deps demo_call []
     (demo_req Map.empty) demo_res))) = 404"
  by (simp add: findMyOrders_def updatePassword_def findById_def getMe_def updateMe_def
      findByIdAndUpdate_def update_document_def demo_guard_def demo_req_def catchAsync_def createHttpError_def
      http_error_name_def or_status_def or_string_def Let_def)

section \<open>The session cookie\<close>



section \<open>State after a failed operation\<close>

text \<open>
  C2 (as amended). A registration that the store rejects (validation or duplicate key)
  creates no record; one that fails afterwards, at token issuance without a signing
  secret, leaves the record it has created. updateProfile first applies the profile
  update of the request; if that step fails, nothing is written. It then rotates the
  hash, when password and newPassword are supplied, only if the supplied current
  password verifies against the hash stored at that point. When the verification fails,
  the operation fails with "Wrong password!", the rotation writes nothing and the
  collection is left as the profile update wrote it: the other fields of the request
  have been written, and the prior hash is intact provided the update document (its
  top-level keys and the keys under \<^verbatim>\<open>$set\<close>) does not itself write the password
  path.
\<close>

theorem failed_write_leaves_credentials:
  "(create ds c st b = (Inl e, st1) \<longrightarrow> st1 = st) \<and>
   (create ds c st (req_body req) = (Inl e, st1) \<longrightarrow>
      register ds c st req res = (Inl e, st)) \<and>
   (create ds c st (req_body req) = (Inr u, st1) \<and> \<not> truthy (SECRET_KEY ds) \<longrightarrow>
      register ds c st req res =
        (Inl (createHttpError 503 ''Cannot create access token!''), st1)) \<and>
   (checkAuth req = Inr me \<and>
    findByIdAndUpdate (call_now c) st (user_id me)
      (update_document (req_body req |` (- {''password'', ''newPassword''}))
         (req_body_set req)) = (Inl e, st1) \<longrightarrow>
      updateMe checkAuth ds c st req res = (Inl e, st)) \<and>
   (findByIdAndUpdate now st i upd = (Inr (Some w), st1) \<longrightarrow>
      (\<exists>old. findById st i = Some old \<and>
         findById st1 i = Some (old ++ (cast_update upd ++ [''updatedAt'' \<mapsto> Date now])))) \<and>
   (findByIdAndUpdate now st i upd = (o1, st1) \<and> upd ''password'' = None \<longrightarrow>
      stored_field st1 j ''password'' = stored_field st j ''password'') \<and>
   (checkAuth req = Inr me \<and>
    findByIdAndUpdate (call_now c) st (user_id me)
      (update_document (req_body req |` (- {''password'', ''newPassword''}))
         (req_body_set req)) = (o1, st1) \<and>
    updateMe checkAuth ds c st req res = (out, st2) \<and>
    stored_field st2 j ''password'' \<noteq> stored_field st1 j ''password'' \<longrightarrow>
      j = user_id me \<and>
      (\<exists>pw h. req_body req ''password'' = Some pw \<and>
         stored_field st1 j ''password'' = Some (Str h) \<and> bcrypt_compare ds pw h)) \<and>
   (checkAuth req = Inr me \<and>
    findByIdAndUpdate (call_now c) st (user_id me)
      (update_document (req_body req |` (- {''password'', ''newPassword''}))
         (req_body_set req)) = (Inr (Some w), st1) \<and>
    req_body req ''password'' = Some pw \<and> pw \<noteq> [] \<and>
    req_body req ''newPassword'' = Some np \<and> np \<noteq> [] \<and>
    stored_field st1 (user_id me) ''password'' = Some (Str h) \<and> \<not> bcrypt_compare ds pw h \<longrightarrow>
      updateMe checkAuth ds c st req res =
        (Inl (createHttpError 400 ''Wrong password!''), st1))"
proof (intro conjI impI)
  assume "create ds c st b = (Inl e, st1)"
  from create_Inl(1) [OF this] show "st1 = st" .
next
  assume a: "create ds c st (req_body req) = (Inl e, st1)"
  from create_Inl(1) [OF a] register_create_fails [OF a, of res]
  show "register ds c st req res = (Inl e, st)" by simp
next
  assume "create ds c st (req_body req) = (Inr u, st1) \<and> \<not> truthy (SECRET_KEY ds)"
  then show "register ds c st req res =
      (Inl (createHttpError 503 ''Cannot create access token!''), st1)"
    using register_after_create(2) by blast
next
  assume "checkAuth req = Inr me \<and>
    findByIdAndUpdate (call_now c) st (user_id me)
      (update_document (req_body req |` (- {''password'', ''newPassword''}))
         (req_body_set req)) = (Inl e, st1)"
  then show "updateMe checkAuth ds c st req res = (Inl e, st)"
    using updateMe_update_fails by blast
next
  assume "findByIdAndUpdate now st i upd = (Inr (Some w), st1)"
  from findById_after_update [OF this]
  show "\<exists>old. findById st i = Some old \<and>
         findById st1 i = Some (old ++ (cast_update upd ++ [''updatedAt'' \<mapsto> Date now]))" .
next
  assume "findByIdAndUpdate now st i upd = (o1, st1) \<and> upd ''password'' = None"
  then show "stored_field st1 j ''password'' = stored_field st j ''password''"
    using findByIdAndUpdate_keeps_password by blast
next
  assume a: "checkAuth req = Inr me \<and>
    findByIdAndUpdate (call_now c) st (user_id me)
      (update_document (req_body req |` (- {''password'', ''newPassword''}))
         (req_body_set req)) = (o1, st1) \<and>
    updateMe checkAuth ds c st req res = (out, st2) \<and>
    stored_field st2 j ''password'' \<noteq> stored_field st1 j ''password''"
  from a have me: "checkAuth req = Inr me"
    and fu: "findByIdAndUpdate (call_now c) st (user_id me)
      (update_document (req_body req |` (- {''password'', ''newPassword''}))
         (req_body_set req)) = (o1, st1)"
    and um: "updateMe checkAuth ds c st req res = (out, st2)"
    and ch: "stored_field st2 j ''password'' \<noteq> stored_field st1 j ''password''"
    by simp_all
  from updateMe_rotates_only_verified [OF me fu um ch]
  show "j = user_id me" and "\<exists>pw h. req_body req ''password'' = Some pw \<and>
         stored_field st1 j ''password'' = Some (Str h) \<and> bcrypt_compare ds pw h"
    by blast+
next
  assume a: "checkAuth req = Inr me \<and>
    findByIdAndUpdate (call_now c) st (user_id me)
      (update_document (req_body req |` (- {''password'', ''newPassword''}))
         (req_body_set req)) = (Inr (Some w), st1) \<and>
    req_body req ''password'' = Some pw \<and> pw \<noteq> [] \<and>
    req_body req ''newPassword'' = Some np \<and> np \<noteq> [] \<and>
    stored_field st1 (user_id me) ''password'' = Some (Str h) \<and> \<not> bcrypt_compare ds pw h"
  then show "updateMe checkAuth ds c st req res =
        (Inl (createHttpError 400 ''Wrong password!''), st1)"
    using updateMe_wrong_password [of checkAuth req me c st w st1 pw np h ds res] by blast
qed

text \<open>
  The claim as first stated, that no failed operation leaves state behind and that the
  hash changes only after verification, fails three times. A registration that is valid
  but finds no signing secret fails with 503 after the record has been inserted. A
  profile update with a wrong current password fails with "Wrong password!" after the
  other fields of the request have been written: here the stored name has changed. And
  a profile update whose body carries the operator \<^verbatim>\<open>$set\<close> on the password path,
  with no current password at all, answers 200 and overwrites the stored hash.
\<close>

theorem partial_failure_counterexample:
  "fst (register demo_deps_nokey demo_call [] (demo_req demo_body) demo_res) =
     Inl (createHttpError 503 ''Cannot create access token!'') \<and>
   length (snd (register demo_deps_nokey demo_call [] (demo_req demo_body) demo_res)) = 1 \<and>
   fst (updateMe demo_guard demo_deps demo_call demo_store (demo_req demo_rotate_wrong)
     demo_res) = Inl (createHttpError 400 ''Wrong password!'') \<and>
   stored_field demo_store ''u1'' ''name'' = Some (Str ''Ann Lee'') \<and>
   stored_field (snd (updateMe demo_guard demo_deps demo_call demo_store
     (demo_req demo_rotate_wrong) demo_res)) ''u1'' ''name'' = Some (Str ''Eve Lee'') \<and>
   req_body demo_set_password ''password'' = None \<and>
   (case fst (updateMe demo_guard demo_deps demo_call demo_store demo_set_password demo_res) of
      Inl err \<Rightarrow> 0 | Inr r \<Rightarrow> res_status r) = 200 \<and>
   stored_field demo_store ''u1'' ''password'' = Some (Str ''#hunter2'') \<and>
   stored_field (snd (updateMe demo_guard demo_deps demo_call demo_store demo_set_password
     demo_res)) ''u1'' ''password'' = Some (Str ''pwned1'')"
  using demo_register_nokey demo_wrong_rotation demo_set_overwrite demo_stored
  by (auto simp: demo_set_password_def)

theorem failed_write_leaves_credentials_witness:
  "(\<exists>e. create demo_deps demo_call [] demo_short_name = (Inl e, [])) \<and>
   (\<exists>e. register demo_deps demo_call [] (demo_req demo_short_name) demo_res = (Inl e, [])) \<and>
   (\<exists>u. register demo_deps_nokey demo_call [] (demo_req demo_body) demo_res =
      (Inl (createHttpError 503 ''Cannot create access token!''), [u])) \<and>
   updateMe demo_guard demo_deps demo_call demo_store (demo_req demo_with_id) demo_res =
      (Inl (cast_error ''zzz'' ''_id''), demo_store) \<and>
   (\<exists>w st1 old. findByIdAndUpdate (call_now demo_call) demo_store ''u1''
        (update_document (req_body (demo_req demo_rotate_wrong) |` (- {''password'', ''newPassword''}))
           (req_body_set (demo_req demo_rotate_wrong))) = (Inr (Some w), st1) \<and>
      findById demo_store ''u1'' = Some old \<and>
      findById st1 ''u1'' = Some (old ++
        (cast_update (update_document
           (req_body (demo_req demo_rotate_wrong) |` (- {''password'', ''newPassword''}))
           (req_body_set (demo_req demo_rotate_wrong))) ++
         [''updatedAt'' \<mapsto> Date (call_now demo_call)])) \<and>
      stored_field st1 ''u1'' ''name'' = Some (Str ''Eve Lee'') \<and>
      stored_field st1 ''u1'' ''password'' = stored_field demo_store ''u1'' ''password'' \<and>
      updateMe demo_guard demo_deps demo_call demo_store (demo_req demo_rotate_wrong) demo_res =
        (Inl (createHttpError 400 ''Wrong password!''), st1)) \<and>
   (\<exists>out st2. updateMe demo_guard demo_deps demo_call demo_store (demo_req demo_rotate)
        demo_res = (out, st2) \<and>
      stored_field st2 ''u1'' ''password'' = Some (Str ''#hunter3'') \<and>
      bcrypt_compare demo_deps ''hunter2'' ''#hunter2'')"
proof (intro conjI)
  from create_invalid [OF demo_short_name_invalid, of demo_deps "[]"]
  obtain e st1 where cr: "create demo_deps demo_call [] demo_short_name = (Inl e, st1)"
    by blast
  from failed_write_leaves_credentials [where ds = demo_deps and c = demo_call and st = "[]"
      and b = demo_short_name and e = e and ?st1.0 = st1] cr
  show "\<exists>e. create demo_deps demo_call [] demo_short_name = (Inl e, [])"
    by auto
  from cr have cr': "create demo_deps demo_call [] (req_body (demo_req demo_short_name)) =
      (Inl e, st1)"
    by (simp add: demo_req_def)
  from failed_write_leaves_credentials [where ds = demo_deps and c = demo_call and st = "[]"
      and req = "demo_req demo_short_name" and res = demo_res and e = e and ?st1.0 = st1] cr'
  show "\<exists>e. register demo_deps demo_call [] (demo_req demo_short_name) demo_res = (Inl e, [])"
    by auto
next
  from demo_create [of demo_deps_nokey] obtain u where
    cu: "create demo_deps_nokey demo_call [] (req_body (demo_req demo_body)) = (Inr u, [u])"
    by (auto simp: demo_req_def)
  have "\<not> truthy (SECRET_KEY demo_deps_nokey)"
    by (simp add: demo_deps_nokey_def truthy_def)
  with failed_write_leaves_credentials [where ds = demo_deps_nokey and c = demo_call
      and st = "[]" and req = "demo_req demo_body" and res = demo_res and u = u
      and ?st1.0 = "[u]"] cu
  show "\<exists>u. register demo_deps_nokey demo_call [] (demo_req demo_body) demo_res =
      (Inl (createHttpError 503 ''Cannot create access token!''), [u])"
    by blast
next
  have "demo_guard (demo_req demo_with_id) =
      Inr \<lparr>user_id = ''u1'', user_doc = select_default demo_user\<rparr>"
    by (simp add: demo_guard_def)
  with failed_write_leaves_credentials [where checkAuth = demo_guard and ds = demo_deps
      and c = demo_call and st = demo_store and req = "demo_req demo_with_id"
      and res = demo_res and e = "cast_error ''zzz'' ''_id''" and ?st1.0 = demo_store
      and me = "\<lparr>user_id = ''u1'', user_doc = select_default demo_user\<rparr>"]
    demo_cast_error
  show "updateMe demo_guard demo_deps demo_call demo_store (demo_req demo_with_id) demo_res =
      (Inl (cast_error ''zzz'' ''_id''), demo_store)"
    by simp
next
  let ?upd = "update_document
      (req_body (demo_req demo_rotate_wrong) |` (- {''password'', ''newPassword''}))
      (req_body_set (demo_req demo_rotate_wrong))"
  let ?me = "\<lparr>user_id = ''u1'', user_doc = select_default demo_user\<rparr>"
  from demo_wrong_update obtain w st1 where
    fu: "findByIdAndUpdate (call_now demo_call) demo_store ''u1'' ?upd = (Inr (Some w), st1)"
    and nm: "stored_field st1 ''u1'' ''name'' = Some (Str ''Eve Lee'')"
    and pw: "stored_field st1 ''u1'' ''password'' = Some (Str ''#hunter2'')"
    by blast
  note inst = failed_write_leaves_credentials [where checkAuth = demo_guard and ds = demo_deps
      and c = demo_call and st = demo_store and req = "demo_req demo_rotate_wrong"
      and res = demo_res and now = "call_now demo_call" and i = "''u1''" and upd = "?upd"
      and w = w and ?st1.0 = st1 and ?o1.0 = "Inr (Some w)" and j = "''u1''" and me = "?me"
      and pw = "''nope12''" and np = "''hunter3''" and h = "''#hunter2''"]
  from inst fu obtain old where old: "findById demo_store ''u1'' = Some old"
    and wr: "findById st1 ''u1'' =
      Some (old ++ (cast_update ?upd ++ [''updatedAt'' \<mapsto> Date (call_now demo_call)]))"
    by blast
  have "?upd ''password'' = None"
    by (simp add: update_document_def demo_req_def restrict_map_def)
  with inst fu
  have keep: "stored_field st1 ''u1'' ''password'' = stored_field demo_store ''u1'' ''password''"
    by blast
  from inst fu pw demo_wrong_facts
  have "updateMe demo_guard demo_deps demo_call demo_store (demo_req demo_rotate_wrong) demo_res =
        (Inl (createHttpError 400 ''Wrong password!''), st1)"
    by simp
  with fu old wr nm keep
  show "\<exists>w st1 old. findByIdAndUpdate (call_now demo_call) demo_store ''u1'' ?upd =
        (Inr (Some w), st1) \<and>
      findById demo_store ''u1'' = Some old \<and>
      findById st1 ''u1'' = Some (old ++
        (cast_update ?upd ++ [''updatedAt'' \<mapsto> Date (call_now demo_call)])) \<and>
      stored_field st1 ''u1'' ''name'' = Some (Str ''Eve Lee'') \<and>
      stored_field st1 ''u1'' ''password'' = stored_field demo_store ''u1'' ''password'' \<and>
      updateMe demo_guard demo_deps demo_call demo_store (demo_req demo_rotate_wrong) demo_res =
        (Inl (createHttpError 400 ''Wrong password!''), st1)"
    by blast
next
  let ?upd = "update_document
      (req_body (demo_req demo_rotate) |` (- {''password'', ''newPassword''}))
      (req_body_set (demo_req demo_rotate))"
  let ?me = "\<lparr>user_id = ''u1'', user_doc = select_default demo_user\<rparr>"
  from demo_rotation obtain out st2 where
    ev: "updateMe demo_guard demo_deps demo_call demo_store (demo_req demo_rotate) demo_res =
       (out, st2)"
    and sf: "stored_field st2 ''u1'' ''password'' = Some (Str ''#hunter3'')"
    by blast
  obtain o1 st1 where
    fu: "findByIdAndUpdate (call_now demo_call) demo_store ''u1'' ?upd = (o1, st1)"
    by (cases "findByIdAndUpdate (call_now demo_call) demo_store ''u1'' ?upd") auto
  have "?upd ''password'' = None"
    by (simp add: update_document_def demo_req_def restrict_map_def)
  from findByIdAndUpdate_keeps_password [OF fu this, of "''u1''"] demo_stored(1)
  have s1: "stored_field st1 ''u1'' ''password'' = Some (Str ''#hunter2'')" by simp
  with sf have ne: "stored_field st2 ''u1'' ''password'' \<noteq> stored_field st1 ''u1'' ''password''"
    by simp
  have g: "demo_guard (demo_req demo_rotate) = Inr ?me"
    by (simp add: demo_guard_def)
  note verified = failed_write_leaves_credentials [where checkAuth = demo_guard
      and ds = demo_deps and c = demo_call and st = demo_store and req = "demo_req demo_rotate"
      and res = demo_res and out = out and ?st2.0 = st2 and j = "''u1''" and me = "?me"
      and ?o1.0 = o1 and ?st1.0 = st1, THEN conjunct2, THEN conjunct2, THEN conjunct2,
      THEN conjunct2, THEN conjunct2, THEN conjunct2, THEN conjunct1, rule_format]
  have fu': "findByIdAndUpdate (call_now demo_call) demo_store (user_id ?me) ?upd = (o1, st1)"
    using fu by simp
  from verified [OF conjI [OF g conjI [OF fu' conjI [OF ev ne]]]]
  obtain pw h where "req_body (demo_req demo_rotate) ''password'' = Some pw"
    and "stored_field st1 ''u1'' ''password'' = Some (Str h)"
    and "bcrypt_compare demo_deps pw h"
    by blast
  with s1 have "bcrypt_compare demo_deps ''hunter2'' ''#hunter2''"
    by (simp add: demo_req_def demo_rotate_def)
  with ev sf show "\<exists>out st2. updateMe demo_guard demo_deps demo_call demo_store
        (demo_req demo_rotate) demo_res = (out, st2) \<and>
      stored_field st2 ''u1'' ''password'' = Some (Str ''#hunter3'') \<and>
      bcrypt_compare demo_deps ''hunter2'' ''#hunter2''"
    by blast
qed

section \<open>Validation at creation\<close>

text \<open>
  C4 (as amended). Every create validates the name shape (the first two space-separated
  segments are non-empty words), the email shape, the minimum length 6 of the password
  before hashing, and the membership of the role in user and admin: a violation fails
  with a ValidationError that carries a message for exactly the failing fields, and
  persists nothing. Email uniqueness is enforced by the unique index of the collection:
  a duplicate fails with the database's duplicate-key error, not a ValidationError, and
  persists nothing. A create that succeeds persists exactly one record, which satisfies
  these rules.
\<close>

theorem create_validates:
  assumes "create ds c st b = (out, st')"
  shows
  "(validate (candidate c b) \<noteq> [] \<longrightarrow>
      out = Inl (ValidationError (validate (candidate c b))) \<and>
      err_name (ValidationError (validate (candidate c b))) = ''ValidationError'' \<and>
      err_errors (ValidationError (validate (candidate c b))) = validate (candidate c b) \<and>
      st' = st) \<and>
   ((\<exists>m. (''name'', m) \<in> set (validate (candidate c b))) \<longleftrightarrow>
      \<not> (\<exists>n. candidate c b ''name'' = Some (Str n) \<and> name_validator n)) \<and>
   ((\<exists>m. (''email'', m) \<in> set (validate (candidate c b))) \<longleftrightarrow>
      \<not> (\<exists>e. candidate c b ''email'' = Some (Str e) \<and> rx_test email_rx e)) \<and>
   ((\<exists>m. (''password'', m) \<in> set (validate (candidate c b))) \<longleftrightarrow>
      \<not> (\<exists>p. candidate c b ''password'' = Some (Str p) \<and> 6 \<le> length p)) \<and>
   ((\<exists>m. (''role'', m) \<in> set (validate (candidate c b))) \<longleftrightarrow>
      \<not> (\<exists>r. candidate c b ''role'' = Some (Str r) \<and> r \<in> set UserRole_values)) \<and>
   (validate (candidate c b) = [] \<longrightarrow>
      (\<forall>e. out = Inl e \<longrightarrow>
         (e = duplicate_key_error ''_id'' \<or> e = duplicate_key_error ''email'') \<and>
         err_name e = ''MongoServerError'' \<and> st' = st)) \<and>
   (\<forall>r. out = Inr r \<longrightarrow>
      st' = st @ [r] \<and>
      (\<exists>n w1 w2 ws. r ''name'' = Some (Str n) \<and> split_space n = w1 # w2 # ws \<and>
         w1 \<noteq> [] \<and> w2 \<noteq> []) \<and>
      (\<exists>e. r ''email'' = Some (Str e) \<and> rx_test email_rx e \<and>
         (\<forall>x \<in> set st. x ''email'' \<noteq> Some (Str e))) \<and>
      (\<exists>p. candidate c b ''password'' = Some (Str p) \<and> 6 \<le> length p) \<and>
      (\<exists>ro. r ''role'' = Some (Str ro) \<and> ro \<in> set UserRole_values))"
proof (intro conjI)
  show "validate (candidate c b) \<noteq> [] \<longrightarrow>
      out = Inl (ValidationError (validate (candidate c b))) \<and>
      err_name (ValidationError (validate (candidate c b))) = ''ValidationError'' \<and>
      err_errors (ValidationError (validate (candidate c b))) = validate (candidate c b) \<and>
      st' = st"
    using assms create_invalid [of c b ds st] by (auto simp: ValidationError_def)
  show "(\<exists>m. (''name'', m) \<in> set (validate (candidate c b))) \<longleftrightarrow>
      \<not> (\<exists>n. candidate c b ''name'' = Some (Str n) \<and> name_validator n)"
    by (simp add: validate_has_entry validate_name_Nil)
  show "(\<exists>m. (''email'', m) \<in> set (validate (candidate c b))) \<longleftrightarrow>
      \<not> (\<exists>e. candidate c b ''email'' = Some (Str e) \<and> rx_test email_rx e)"
    using email_rx_nonempty by (auto simp: validate_has_entry validate_email_Nil)
  show "(\<exists>m. (''password'', m) \<in> set (validate (candidate c b))) \<longleftrightarrow>
      \<not> (\<exists>p. candidate c b ''password'' = Some (Str p) \<and> 6 \<le> length p)"
    by (simp add: validate_has_entry validate_password_Nil)
  show "(\<exists>m. (''role'', m) \<in> set (validate (candidate c b))) \<longleftrightarrow>
      \<not> (\<exists>r. candidate c b ''role'' = Some (Str r) \<and> r \<in> set UserRole_values)"
    using candidate_role [of c b] by (auto simp: validate_has_entry validate_role_Nil)
  show "validate (candidate c b) = [] \<longrightarrow>
      (\<forall>e. out = Inl e \<longrightarrow>
         (e = duplicate_key_error ''_id'' \<or> e = duplicate_key_error ''email'') \<and>
         err_name e = ''MongoServerError'' \<and> st' = st)"
    using assms create_Inl(1,3) [of ds c st b _ st']
    by (auto simp: duplicate_key_error_def)
  show "\<forall>r. out = Inr r \<longrightarrow>
      st' = st @ [r] \<and>
      (\<exists>n w1 w2 ws. r ''name'' = Some (Str n) \<and> split_space n = w1 # w2 # ws \<and>
         w1 \<noteq> [] \<and> w2 \<noteq> []) \<and>
      (\<exists>e. r ''email'' = Some (Str e) \<and> rx_test email_rx e \<and>
         (\<forall>x \<in> set st. x ''email'' \<noteq> Some (Str e))) \<and>
      (\<exists>p. candidate c b ''password'' = Some (Str p) \<and> 6 \<le> length p) \<and>
      (\<exists>ro. r ''role'' = Some (Str ro) \<and> ro \<in> set UserRole_values)"
  proof (intro allI impI)
    fix r
    assume "out = Inr r"
    with assms have cr: "create ds c st b = (Inr r, st')" by simp
    note v = create_Inr(1) [OF cr] and f = create_Inr_fields [OF cr]
    from v obtain n where n: "candidate c b ''name'' = Some (Str n)" "name_validator n"
      by (auto simp: validate_Nil validate_name_Nil)
    from v obtain e where e: "candidate c b ''email'' = Some (Str e)" "rx_test email_rx e"
      by (auto simp: validate_Nil validate_email_Nil)
    from v obtain p where p: "candidate c b ''password'' = Some (Str p)" "6 \<le> length p"
      by (auto simp: validate_Nil validate_password_Nil)
    from v candidate_role [of c b] obtain ro where
      ro: "candidate c b ''role'' = Some (Str ro)" "ro \<in> set UserRole_values"
      by (auto simp: validate_Nil validate_role_Nil)
    from n(2) obtain w1 w2 ws where "split_space n = w1 # w2 # ws" "w1 \<noteq> []" "w2 \<noteq> []"
      by (auto simp: name_validator_words)
    with n(1) f(1)
    have "\<exists>n w1 w2 ws. r ''name'' = Some (Str n) \<and> split_space n = w1 # w2 # ws \<and>
         w1 \<noteq> [] \<and> w2 \<noteq> []"
      by auto
    moreover from e f(2) create_Inr(4) [OF cr]
    have "\<exists>e. r ''email'' = Some (Str e) \<and> rx_test email_rx e \<and>
         (\<forall>x \<in> set st. x ''email'' \<noteq> Some (Str e))"
      by auto
    moreover from ro f(3)
    have "\<exists>ro. r ''role'' = Some (Str ro) \<and> ro \<in> set UserRole_values" by auto
    ultimately show "st' = st @ [r] \<and>
      (\<exists>n w1 w2 ws. r ''name'' = Some (Str n) \<and> split_space n = w1 # w2 # ws \<and>
         w1 \<noteq> [] \<and> w2 \<noteq> []) \<and>
      (\<exists>e. r ''email'' = Some (Str e) \<and> rx_test email_rx e \<and>
         (\<forall>x \<in> set st. x ''email'' \<noteq> Some (Str e))) \<and>
      (\<exists>p. candidate c b ''password'' = Some (Str p) \<and> 6 \<le> length p) \<and>
      (\<exists>ro. r ''role'' = Some (Str ro) \<and> ro \<in> set UserRole_values)"
      using create_Inr(2) [OF cr] p by blast
  qed
qed

text \<open>
  The claim as first stated fails on both kinds of write. A create with an email already
  in the collection fails with the duplicate-key error, which is no ValidationError and
  carries no per-field message. And the profile update, which calls findByIdAndUpdate
  without asking for validators, answers 200 and stores the one-word name it is given.
\<close>

theorem create_validation_counterexample:
  "create demo_deps demo_call2 demo_store demo_body =
     (Inl (duplicate_key_error ''email''), demo_store) \<and>
   err_name (duplicate_key_error ''email'') = ''MongoServerError'' \<and>
   err_errors (duplicate_key_error ''email'') = [] \<and>
   (case fst (updateMe demo_guard demo_deps demo_call demo_store
       (demo_req [''name'' \<mapsto> ''x'']) demo_res) of
      Inl err \<Rightarrow> 0 | Inr r \<Rightarrow> res_status r) = 200 \<and>
   stored_field (snd (updateMe demo_guard demo_deps demo_call demo_store
       (demo_req [''name'' \<mapsto> ''x'']) demo_res)) ''u1'' ''name'' = Some (Str ''x'') \<and>
   \<not> name_validator ''x''"
  using demo_duplicate demo_update_short_name demo_one_word(2)
  by (auto simp: duplicate_key_error_def)

theorem create_validates_witness:
  "(\<exists>e. create demo_deps demo_call [] demo_short_name = (Inl e, []) \<and>
      err_name e = ''ValidationError'' \<and> (\<exists>m. (''name'', m) \<in> set (err_errors e))) \<and>
   (\<exists>r. create demo_deps demo_call [] demo_body = (Inr r, [r]) \<and>
      r ''name'' = Some (Str ''Ann Lee'') \<and> r ''email'' = Some (Str ''ann@shop.io'') \<and>
      r ''role'' = Some (Str ''user'')) \<and>
   (\<exists>e. create demo_deps demo_call2 demo_store demo_body = (Inl e, demo_store) \<and>
      err_name e = ''MongoServerError'')"
proof (intro conjI)
  obtain out st' where cr: "create demo_deps demo_call [] demo_short_name = (out, st')"
    by (cases "create demo_deps demo_call [] demo_short_name") auto
  have "\<not> (\<exists>n. candidate demo_call demo_short_name ''name'' = Some (Str n) \<and> name_validator n)"
    by (simp add: demo_short_candidate demo_one_word(1))
  with create_validates [OF cr] demo_short_name_invalid cr
  show "\<exists>e. create demo_deps demo_call [] demo_short_name = (Inl e, []) \<and>
      err_name e = ''ValidationError'' \<and> (\<exists>m. (''name'', m) \<in> set (err_errors e))"
    by auto
next
  from demo_create [of demo_deps] obtain r where
    cr: "create demo_deps demo_call [] demo_body = (Inr r, [r])" by blast
  from create_validates [OF cr]
  obtain n e ro where "r ''name'' = Some (Str n)" "r ''email'' = Some (Str e)"
    "r ''role'' = Some (Str ro)"
    by blast
  with create_Inr_fields [OF cr] demo_body_candidate [of demo_call] cr
  show "\<exists>r. create demo_deps demo_call [] demo_body = (Inr r, [r]) \<and>
      r ''name'' = Some (Str ''Ann Lee'') \<and> r ''email'' = Some (Str ''ann@shop.io'') \<and>
      r ''role'' = Some (Str ''user'')"
    by auto
next
  from create_validates [OF demo_duplicate] demo_body_valid [of demo_call2] demo_duplicate
  show "\<exists>e. create demo_deps demo_call2 demo_store demo_body = (Inl e, demo_store) \<and>
      err_name e = ''MongoServerError''"
    by auto
qed

end
